theory Spec2Isabelle
  imports Main
begin

section \<open>Strings, sizes and decimal rendering\<close>

text \<open>
  A \<open>std::string\<close> or \<open>std::string_view\<close> is a list of bytes. \<open>size_t\<close> is a 64-bit
  unsigned integer: a value of the model is a natural number, and \<open>size_t\<close> below is the
  conversion of a mathematical integer to that type (reduction modulo \<open>2 ^ 64\<close>), written
  out wherever the source subtracts.
\<close>

type_synonym bytes = string

definition size_t :: "int \<Rightarrow> nat" where
  "size_t i = nat (i mod 2 ^ 64)"

text \<open>
  Modelled from the spec: the constants \<open>CRCF\<close> and \<open>TWO_CRCF\<close> of \<open>cinatra/define.h\<close>,
  which is not among the sources; the spec fixes them as \<open>\r\n\<close> and \<open>\r\n\r\n\<close>.
  \<open>BOUNDARY\<close> and \<open>MULTIPART_END\<close>, whose values the spec does not give, are fields of
  the environment record below.
\<close>

definition CRCF :: string where
  "CRCF = [CHR 0x0D, CHR 0x0A]"

definition TWO_CRCF :: string where
  "TWO_CRCF = CRCF @ CRCF"

text \<open>\<open>std::to_string\<close> on an unsigned value: the decimal digits, most significant first.\<close>

definition digit_char :: "nat \<Rightarrow> char" where
  "digit_char d = ''0123456789'' ! d"

function to_string :: "nat \<Rightarrow> string" where
  "to_string n =
     (if n < 10 then [digit_char n] else to_string (n div 10) @ [digit_char (n mod 10)])"
  by pat_completeness auto
termination
  by (relation "measure id") auto

declare to_string.simps [simp del]

text \<open>\<open>std::string_view::find(char)\<close>: the index of the first occurrence, if any.\<close>

fun find_char :: "char \<Rightarrow> string \<Rightarrow> nat option" where
  "find_char c [] = None"
| "find_char c (x # xs) =
     (if x = c then Some 0 else map_option Suc (find_char c xs))"

text \<open>\<open>std::string::find(str) != npos\<close>: the string occurs somewhere in the text.\<close>

fun is_prefix :: "string \<Rightarrow> string \<Rightarrow> bool" where
  "is_prefix [] ys = True"
| "is_prefix (x # xs) [] = False"
| "is_prefix (x # xs) (y # ys) = (x = y \<and> is_prefix xs ys)"

fun contains :: "string \<Rightarrow> string \<Rightarrow> bool" where
  "contains pat [] = (pat = [])"
| "contains pat (y # ys) = (is_prefix pat (y # ys) \<or> contains pat ys)"

section \<open>Collaborators: response, connection, file\<close>

text \<open>
  Modelled from the spec: the response, connection and file collaborators
  (\<open>coro_http_response\<close>, \<open>coro_http_connection\<close>, \<open>coro_io::coro_file\<close>), whose sources
  are not among the files. The spec gives their interfaces:
  \<open>set_status\<close>, \<open>set_status_and_content\<close>, \<open>add_header\<close>, \<open>set_format_type\<close>,
  \<open>set_delay\<close>; \<open>begin_chunked\<close>, \<open>write_chunked\<close>, \<open>end_chunked\<close>, \<open>write_data\<close>,
  \<open>async_write\<close>, \<open>reply\<close>; \<open>async_open\<close>, \<open>is_open\<close>, \<open>seek\<close>, \<open>async_read\<close>, \<open>eof\<close>.

  A connection records every call made on it, in order, with its outcome. Whether a call
  succeeds is decided by the peer: \<open>peer\<close> lists the outcomes of the calls to come
  (\<open>False\<close> is a failure), and an exhausted list means success. A file read is decided the
  same way by \<open>f_reads\<close>. A read of \<open>n\<close> bytes returns the bytes from the current
  position, at most \<open>n\<close>, and raises the end-of-file flag when it asked for more than
  was left.
\<close>

datatype format_type = Normal | Chunked

record coro_http_response =
  status :: nat
  content :: bytes
  headers :: "(string \<times> string) list"
  delay :: bool
  fmt_type :: format_type

definition no_content :: nat where "no_content = 204"
definition not_found :: nat where "not_found = 404"
definition range_not_satisfiable :: nat where "range_not_satisfiable = 416"

definition set_status :: "nat \<Rightarrow> coro_http_response \<Rightarrow> coro_http_response" where
  "set_status st resp = resp\<lparr>status := st\<rparr>"

definition set_status_and_content ::
  "nat \<Rightarrow> bytes \<Rightarrow> coro_http_response \<Rightarrow> coro_http_response" where
  "set_status_and_content st body resp = resp\<lparr>status := st, content := body\<rparr>"

definition add_header :: "string \<Rightarrow> string \<Rightarrow> coro_http_response \<Rightarrow> coro_http_response" where
  "add_header k v resp = resp\<lparr>headers := headers resp @ [(k, v)]\<rparr>"

definition set_delay :: "bool \<Rightarrow> coro_http_response \<Rightarrow> coro_http_response" where
  "set_delay d resp = resp\<lparr>delay := d\<rparr>"

definition set_format_type :: "format_type \<Rightarrow> coro_http_response \<Rightarrow> coro_http_response" where
  "set_format_type t resp = resp\<lparr>fmt_type := t\<rparr>"

datatype conn_op =
    Begin_chunked
  | Write_chunked bytes
  | End_chunked
  | Write_data bytes
  | Async_write "bytes list"
  | Reply coro_http_response

record connection =
  calls :: "(conn_op \<times> bool) list"
  peer :: "bool list"

definition next_ok :: "bool list \<Rightarrow> bool" where
  "next_ok script = (case script of [] \<Rightarrow> True | b # _ \<Rightarrow> b)"

definition conn_call :: "connection \<Rightarrow> conn_op \<Rightarrow> bool \<times> connection" where
  "conn_call c op =
     (let ok = next_ok (peer c)
      in (ok, c\<lparr>calls := calls c @ [(op, ok)], peer := tl (peer c)\<rparr>))"

text \<open>The raw bytes that reached the peer: the data of every write that succeeded.\<close>

fun op_bytes :: "conn_op \<times> bool \<Rightarrow> bytes" where
  "op_bytes (Write_data b, True) = b"
| "op_bytes (Async_write bufs, True) = concat bufs"
| "op_bytes _ = []"

definition sent :: "connection \<Rightarrow> bytes" where
  "sent c = concat (map op_bytes (calls c))"

record coro_file =
  f_data :: bytes
  f_pos :: nat
  f_eof :: bool
  f_seeks :: "nat list"
  f_reads :: "bool list"

definition seek :: "nat \<Rightarrow> coro_file \<Rightarrow> coro_file" where
  "seek off f = f\<lparr>f_pos := off, f_seeks := f_seeks f @ [off]\<rparr>"

definition async_read :: "coro_file \<Rightarrow> nat \<Rightarrow> bytes option \<times> coro_file" where
  "async_read f n =
     (if next_ok (f_reads f)
      then (let got = take n (drop (f_pos f) (f_data f))
            in (Some got, f\<lparr>f_pos := f_pos f + length got,
                              f_eof := (f_eof f \<or> length got < n),
                              f_reads := tl (f_reads f)\<rparr>))
      else (None, f\<lparr>f_reads := tl (f_reads f)\<rparr>))"

section \<open>The server object\<close>

datatype file_resp_format_type = Resp_chunked | Resp_range

datatype http_method = GET | POST | DEL | HEAD | PUT | PATCH | CONNECT | TRACE | OPTIONS

text \<open>
  A route of the router collaborator: the method, the key and the handler registered
  under it. The static-file handler is the closure of \<open>set_static_res_dir\<close> over
  \<open>file_name\<close>.
\<close>

datatype handler = Static_file string | Proxy "string list" | User_handler nat

datatype log_level = DEBUG | INFO | ERROR

datatype asio_error = Operation_aborted | Bad_descriptor | Other_error nat

datatype log_item = Text string | Num nat | Err asio_error

datatype pool_state = Pool_idle | Pool_running | Pool_stopped

record coro_http_connection =
  c_socket :: nat
  c_own_executor :: bool
  c_no_delay :: bool
  c_shrink_to_fit :: bool
  c_check_timeout :: bool
  c_quit_id :: nat

record coro_http_server =
  pool :: "pool_state option"
  out_ctx :: bool
  port :: nat
  acceptor_open :: bool
  thd_joinable :: bool
  acceptor_close_waiter :: bool
  accept_running :: bool
  no_delay :: bool
  conn_id :: nat
  connections :: "(nat \<times> coro_http_connection) list"
  closed_conns :: "nat set"
  started_conns :: "nat list"
  timer_cancelled :: bool
  need_check :: bool
  stop_timer :: bool
  static_dir_router_path :: string
  static_dir :: string
  files :: "string list"
  chunked_size :: nat
  static_file_cache :: "string \<rightharpoonup> bytes"
  format_type :: file_resp_format_type
  router :: "(http_method \<times> string \<times> handler) list"
  need_shrink_every_time :: bool
  logged :: "(log_level \<times> log_item list) list"

section \<open>Header builders\<close>

definition build_range_header ::
  "string \<Rightarrow> string \<Rightarrow> string \<Rightarrow> nat \<Rightarrow> string \<Rightarrow> string" where
  "build_range_header mime filename file_size_str st content_range =
     ''HTTP/1.1 '' @ to_string st
     @ '' OK'' @ CRCF @ ''Access-Control-Allow-origin: *'' @ CRCF
     @ ''Accept-Ranges: bytes'' @ CRCF
     @ (if content_range \<noteq> [] then content_range else [])
     @ ''Content-Disposition: attachment;filename='' @ filename @ CRCF
     @ ''Connection: keep-alive'' @ CRCF
     @ ''Content-Type: '' @ mime @ CRCF
     @ ''Content-Length: '' @ file_size_str @ CRCF @ CRCF"

definition build_multiple_range_header :: "string \<Rightarrow> nat \<Rightarrow> string" where
  "build_multiple_range_header boundary content_len =
     ''HTTP/1.1 206 Partial Content'' @ CRCF
     @ ''Content-Length: '' @ to_string content_len @ CRCF
     @ ''Content-Type: multipart/byteranges; boundary='' @ boundary @ TWO_CRCF"

definition part_head :: "string \<Rightarrow> string \<Rightarrow> string \<Rightarrow> nat \<times> nat \<Rightarrow> string" where
  "part_head boundary mime file_size_str r =
     ''--'' @ boundary @ CRCF
     @ ''Content-Type: '' @ mime @ CRCF
     @ ''Content-Range: '' @ ''bytes '' @ to_string (fst r) @ ''-'' @ to_string (snd r)
     @ ''/'' @ file_size_str @ TWO_CRCF"

text \<open>
  The loop of \<open>build_part_heads\<close> over the ranges, carrying the vector of part headers
  and \<open>content_len\<close>; both additions to \<open>content_len\<close> are in \<open>size_t\<close>.
\<close>

fun part_heads_loop ::
  "string \<Rightarrow> string \<Rightarrow> string \<Rightarrow> (nat \<times> nat) list \<Rightarrow> string list \<times> nat \<Rightarrow> string list \<times> nat"
where
  "part_heads_loop boundary mime file_size_str [] acc = acc"
| "part_heads_loop boundary mime file_size_str ((start, end) # rs) (multi_heads, content_len) =
     (let part_header = part_head boundary mime file_size_str (start, end);
          content_len1 = size_t (int content_len + int (length part_header));
          part_size = size_t (int end + 1 - int start + int (length CRCF));
          content_len2 = size_t (int content_len1 + int part_size)
      in part_heads_loop boundary mime file_size_str rs
           (multi_heads @ [part_header], content_len2))"

definition build_part_heads ::
  "string \<Rightarrow> (nat \<times> nat) list \<Rightarrow> string \<Rightarrow> string \<Rightarrow> nat \<Rightarrow> string list \<times> nat" where
  "build_part_heads boundary ranges mime file_size_str content_len =
     (let (multi_heads, content_len1) =
            part_heads_loop boundary mime file_size_str ranges ([], content_len)
      in (multi_heads, size_t (int content_len1 + int (length boundary + 4))))"

section \<open>Streaming one part\<close>

text \<open>
  \<open>send_single_part\<close>: the loop reads \<open>min part_size chunked_size\<close> bytes and writes
  them, as one plain write when \<open>more\<close> is empty and as a gather-write of the bytes and
  \<open>more\<close> otherwise. It returns \<open>false\<close> after a read error (having set 204 and replied)
  and after a failed write.
\<close>

function send_single_part ::
  "coro_http_server \<Rightarrow> coro_file \<Rightarrow> connection \<Rightarrow> coro_http_response \<Rightarrow> nat \<Rightarrow> string
   \<Rightarrow> bool \<times> coro_file \<times> connection \<times> coro_http_response"
where
  "send_single_part srv in_file conn resp part_size more' =
     (let read_size = min part_size (chunked_size srv)
      in if read_size = 0 then (True, in_file, conn, resp)
         else (case async_read in_file read_size of
                 (None, in_file1) \<Rightarrow>
                   (let resp1 = set_status no_content resp;
                        (_, conn1) = conn_call conn (Reply resp1)
                    in (False, in_file1, conn1, resp1))
               | (Some data, in_file1) \<Rightarrow>
                   (let part_size1 = part_size - read_size;
                        (r, conn1) =
                          (if more' = [] then conn_call conn (Write_data data)
                           else conn_call conn (Async_write [data, more']))
                    in if \<not> r then (False, in_file1, conn1, resp)
                       else send_single_part srv in_file1 conn1 resp part_size1 more')))"
  by pat_completeness auto
termination
  by (relation "measure (\<lambda>(srv, in_file, conn, resp, part_size, more'). part_size)") auto

declare send_single_part.simps [simp del]

section \<open>The environment of a request\<close>

text \<open>
  What the handlers take from outside the server object: the two constants of
  \<open>cinatra/define.h\<close> whose values the spec leaves open, the collaborators that are
  pure functions (extension and MIME lookup, the range parser, which returns the ranges
  and the \<open>is_valid\<close> flag), the file system (a map from paths to contents, with the
  outcomes of the reads on the file the handler opens), and the platform's
  \<open>std::filesystem\<close>: \<open>has_root_path\<close>, \<open>make_preferred\<close>, the current directory and
  the recursive directory listing (each entry with its \<open>is_directory\<close> flag; empty when
  the iterator reports an error).
\<close>

record env =
  BOUNDARY :: string
  MULTIPART_END :: string
  get_extension :: "string \<Rightarrow> string"
  get_mime_type :: "string \<Rightarrow> string"
  parse_ranges :: "string \<Rightarrow> nat \<Rightarrow> (nat \<times> nat) list \<times> bool"
  disk :: "string \<rightharpoonup> bytes"
  read_outcomes :: "bool list"
  has_root_path :: "string \<Rightarrow> bool"
  make_preferred :: "string \<Rightarrow> string"
  current_path :: string
  dir_entries :: "string \<Rightarrow> (string \<times> bool) list"

datatype fault = Filesystem_error | Assertion_failed | Out_of_range

text \<open>\<open>fs::file_size(path)\<close> throws when the file does not exist.\<close>

definition fs_file_size :: "env \<Rightarrow> string \<Rightarrow> nat option" where
  "fs_file_size E p = map_option length (disk E p)"

definition async_open :: "env \<Rightarrow> string \<Rightarrow> coro_file option" where
  "async_open E p =
     map_option (\<lambda>d. \<lparr>f_data = d, f_pos = 0, f_eof = False, f_seeks = [],
                       f_reads = read_outcomes E\<rparr>) (disk E p)"

text \<open>
  Modelled from the spec: the request collaborator (\<open>coro_http_request\<close>, not among the
  sources), with its method, its body and \<open>header(name)\<close>, which reads as the empty string
  when the header is absent.
\<close>

record coro_http_request =
  req_method :: http_method
  req_headers :: "(string \<times> string) list"
  req_body :: bytes

definition get_header_value :: "coro_http_request \<Rightarrow> string \<Rightarrow> string" where
  "get_header_value req k = (case map_of (req_headers req) k of None \<Rightarrow> [] | Some v \<Rightarrow> v)"

section \<open>The static-file handler\<close>

text \<open>
  The handler that \<open>set_static_res_dir\<close> registers for \<open>file_name\<close>, branch by branch.
  A result is the response, the connection and the file object as the handler leaves
  them (\<open>None\<close> when it opened no file). The two loops that run until end of file are
  partial: \<open>None\<close> is a handler that never returns.
\<close>

type_synonym handler_result = "coro_http_response \<times> connection \<times> coro_file option"

definition serve_cached ::
  "string \<Rightarrow> string \<Rightarrow> nat \<Rightarrow> bytes \<Rightarrow> coro_http_response \<Rightarrow> connection \<Rightarrow> handler_result" where
  "serve_cached mime file_name fsize body resp conn =
     (let range_header = build_range_header mime file_name (to_string fsize) 200 [];
          resp1 = set_delay True resp;
          (_, conn1) = conn_call conn (Async_write [range_header, body])
      in (resp1, conn1, None))"

partial_function (option) chunked_loop ::
  "nat \<Rightarrow> coro_file \<Rightarrow> connection \<Rightarrow> coro_http_response
   \<Rightarrow> (coro_file \<times> connection \<times> coro_http_response) option"
where
  "chunked_loop n in_file conn resp =
     (case async_read in_file n of
        (None, in_file1) \<Rightarrow>
          (let resp1 = set_status no_content resp;
               (_, conn1) = conn_call conn (Reply resp1)
           in Some (in_file1, conn1, resp1))
      | (Some data, in_file1) \<Rightarrow>
          (case conn_call conn (Write_chunked data) of
             (r, conn1) \<Rightarrow>
               if \<not> r then Some (in_file1, conn1, resp)
               else if f_eof in_file1
                    then (case conn_call conn1 End_chunked of
                            (_, conn2) \<Rightarrow> Some (in_file1, conn2, resp))
                    else chunked_loop n in_file1 conn1 resp))"

definition serve_chunked ::
  "coro_http_server \<Rightarrow> coro_file \<Rightarrow> coro_http_response \<Rightarrow> connection \<Rightarrow> handler_result option"
where
  "serve_chunked srv in_file resp conn =
     (let resp1 = set_format_type Chunked resp;
          (ok, conn1) = conn_call conn Begin_chunked
      in if \<not> ok then Some (resp1, conn1, Some in_file)
         else map_option (\<lambda>(f, c, r). (r, c, Some f))
                (chunked_loop (chunked_size srv) in_file conn1 resp1))"

definition serve_single_range ::
  "coro_http_server \<Rightarrow> string \<Rightarrow> string \<Rightarrow> nat \<Rightarrow> nat \<times> nat \<Rightarrow> coro_file
   \<Rightarrow> coro_http_response \<Rightarrow> connection \<Rightarrow> handler_result"
where
  "serve_single_range srv mime file_name fsize rng in_file resp conn =
     (let (start, end) = rng;
          in_file1 = seek start in_file;
          part_size = size_t (int end + 1 - int start);
          st = (if part_size = fsize then 200 else 206);
          content_range = ''Content-Range: bytes '' @ to_string start @ ''-''
                          @ to_string end @ ''/'' @ to_string fsize @ CRCF;
          range_header = build_range_header mime file_name (to_string part_size) st
                           content_range;
          resp1 = set_delay True resp;
          (r, conn1) = conn_call conn (Write_data range_header)
      in if \<not> r then (resp1, conn1, Some in_file1)
         else (case send_single_part srv in_file1 conn1 resp1 part_size [] of
                 (_, in_file2, conn2, resp2) \<Rightarrow> (resp2, conn2, Some in_file2)))"

text \<open>
  The \<open>for\<close> loop over the parts, by index. \<open>multi_heads\<close> has one entry per range
  (\<open>build_part_heads\<close> pushes one for each), so \<open>multi_heads ! i\<close> is in range whenever
  \<open>i < length ranges\<close>.
\<close>

function multipart_loop ::
  "env \<Rightarrow> coro_http_server \<Rightarrow> (nat \<times> nat) list \<Rightarrow> string list \<Rightarrow> nat \<Rightarrow> coro_file
   \<Rightarrow> connection \<Rightarrow> coro_http_response \<Rightarrow> coro_file \<times> connection \<times> coro_http_response"
where
  "multipart_loop E srv ranges multi_heads i in_file conn resp =
     (if \<not> i < length ranges then (in_file, conn, resp)
      else (let part_header = multi_heads ! i;
                (r, conn1) = conn_call conn (Write_data part_header)
            in if \<not> r then (in_file, conn1, resp)
               else (let (start, end) = ranges ! i;
                         in_file1 = seek start in_file;
                         part_size = size_t (int end + 1 - int start);
                         more' = (if i = length ranges - 1 then MULTIPART_END E else CRCF)
                     in case send_single_part srv in_file1 conn1 resp part_size more' of
                          (r2, in_file2, conn2, resp2) \<Rightarrow>
                            if \<not> r2 then (in_file2, conn2, resp2)
                            else multipart_loop E srv ranges multi_heads (i + 1)
                                   in_file2 conn2 resp2)))"
  by pat_completeness auto
termination
  by (relation "measure (\<lambda>(E, srv, ranges, multi_heads, i, in_file, conn, resp).
                            length ranges - i)") auto

declare multipart_loop.simps [simp del]

definition serve_multipart ::
  "env \<Rightarrow> coro_http_server \<Rightarrow> string \<Rightarrow> nat \<Rightarrow> (nat \<times> nat) list \<Rightarrow> coro_file
   \<Rightarrow> coro_http_response \<Rightarrow> connection \<Rightarrow> handler_result"
where
  "serve_multipart E srv mime fsize ranges in_file resp conn =
     (let resp1 = set_delay True resp;
          file_size_str = to_string fsize;
          (multi_heads, content_len) =
            build_part_heads (BOUNDARY E) ranges mime file_size_str 0;
          range_header = build_multiple_range_header (BOUNDARY E) content_len;
          (r, conn1) = conn_call conn (Write_data range_header)
      in if \<not> r then (resp1, conn1, Some in_file)
         else (case multipart_loop E srv ranges multi_heads 0 in_file conn1 resp1 of
                 (in_file1, conn2, resp2) \<Rightarrow> (resp2, conn2, Some in_file1)))"

partial_function (option) whole_loop ::
  "nat \<Rightarrow> coro_file \<Rightarrow> connection \<Rightarrow> coro_http_response
   \<Rightarrow> (coro_file \<times> connection \<times> coro_http_response) option"
where
  "whole_loop n in_file conn resp =
     (case async_read in_file n of
        (None, in_file1) \<Rightarrow>
          (let resp1 = set_status no_content resp;
               (_, conn1) = conn_call conn (Reply resp1)
           in Some (in_file1, conn1, resp1))
      | (Some data, in_file1) \<Rightarrow>
          (case conn_call conn (Write_data data) of
             (r, conn1) \<Rightarrow>
               if \<not> r then Some (in_file1, conn1, resp)
               else if f_eof in_file1 then Some (in_file1, conn1, resp)
                    else whole_loop n in_file1 conn1 resp))"

definition serve_whole ::
  "coro_http_server \<Rightarrow> string \<Rightarrow> string \<Rightarrow> nat \<Rightarrow> coro_file \<Rightarrow> coro_http_response
   \<Rightarrow> connection \<Rightarrow> handler_result option"
where
  "serve_whole srv mime file_name fsize in_file resp conn =
     (let range_header = build_range_header mime file_name (to_string fsize) 200 [];
          resp1 = set_delay True resp;
          (r, conn1) = conn_call conn (Write_data range_header)
      in if \<not> r then Some (resp1, conn1, Some in_file)
         else map_option (\<lambda>(f, c, r). (r, c, Some f))
                (whole_loop (chunked_size srv) in_file conn1 resp1))"

text \<open>
  The branch taken when the \<open>Range\<close> value has an \<open>=\<close> at index \<open>pos\<close>. The \<open>assert\<close>
  on the parsed ranges is a fault of the handler. The file does not change while the
  handler runs, so the second \<open>fs::file_size\<close>, passed to the parser, is \<open>fsize\<close> again.
\<close>

definition serve_ranges ::
  "env \<Rightarrow> coro_http_server \<Rightarrow> string \<Rightarrow> string \<Rightarrow> nat \<Rightarrow> string \<Rightarrow> nat \<Rightarrow> coro_file
   \<Rightarrow> coro_http_response \<Rightarrow> connection \<Rightarrow> fault + handler_result"
where
  "serve_ranges E srv mime file_name fsize range_str pos in_file resp conn =
     (let range_str1 = drop (pos + 1) range_str;
          (ranges, is_valid) = parse_ranges E range_str1 fsize
      in if \<not> is_valid
         then Inr (set_status range_not_satisfiable resp, conn, Some in_file)
         else if ranges = [] then Inl Assertion_failed
         else if length ranges = 1
              then Inr (serve_single_range srv mime file_name fsize (ranges ! 0)
                          in_file resp conn)
              else Inr (serve_multipart E srv mime fsize ranges in_file resp conn))"

definition static_file_handler ::
  "env \<Rightarrow> coro_http_server \<Rightarrow> string \<Rightarrow> coro_http_request \<Rightarrow> coro_http_response
   \<Rightarrow> connection \<Rightarrow> (fault + handler_result) option"
where
  "static_file_handler E srv file_name req resp conn =
     (let extension = get_extension E file_name;
          mime = get_mime_type E extension;
          range_str = get_header_value req ''Range''
      in case static_file_cache srv file_name of
           Some body \<Rightarrow>
             (case fs_file_size E file_name of
                None \<Rightarrow> Some (Inl Filesystem_error)
              | Some fsize \<Rightarrow> Some (Inr (serve_cached mime file_name fsize body resp conn)))
         | None \<Rightarrow>
             (case async_open E file_name of
                None \<Rightarrow>
                  Some (Inr (set_status_and_content not_found (file_name @ ''not found'') resp,
                             conn, None))
              | Some in_file \<Rightarrow>
                  (case fs_file_size E file_name of
                     None \<Rightarrow> Some (Inl Filesystem_error)
                   | Some fsize \<Rightarrow>
                       if format_type srv = Resp_chunked \<and> range_str = []
                       then map_option Inr (serve_chunked srv in_file resp conn)
                       else (case find_char (CHR ''='') range_str of
                               Some pos \<Rightarrow>
                                 Some (serve_ranges E srv mime file_name fsize range_str pos
                                         in_file resp conn)
                             | None \<Rightarrow>
                                 map_option Inr
                                   (serve_whole srv mime file_name fsize in_file resp conn)))))"

section \<open>Static configuration\<close>

text \<open>
  Modelled from the spec: the router collaborator (\<open>coro_http_router\<close>, not among the
  sources), whose \<open>register(method_set, path, handler)\<close> keeps the route.
  \<open>unordered_map::emplace\<close> inserts only when the key is absent.
\<close>

definition set_http_handler ::
  "http_method \<Rightarrow> string \<Rightarrow> handler \<Rightarrow> coro_http_server \<Rightarrow> coro_http_server" where
  "set_http_handler m key h srv = srv\<lparr>router := router srv @ [(m, key, h)]\<rparr>"

definition emplace :: "'k \<Rightarrow> 'v \<Rightarrow> ('k \<rightharpoonup> 'v) \<Rightarrow> ('k \<rightharpoonup> 'v)" where
  "emplace k v m = (if m k = None then m(k \<mapsto> v) else m)"

definition emplace_list :: "'k \<Rightarrow> 'v \<Rightarrow> ('k \<times> 'v) list \<Rightarrow> ('k \<times> 'v) list" where
  "emplace_list k v m = (if map_of m k = None then m @ [(k, v)] else m)"

definition log_line ::
  "log_level \<Rightarrow> log_item list \<Rightarrow> coro_http_server \<Rightarrow> coro_http_server" where
  "log_line lvl items srv = srv\<lparr>logged := logged srv @ [(lvl, items)]\<rparr>"

text \<open>
  How a configuration call ends: \<open>std::exit\<close> with a code, an exception, or a normal
  return; each with the server object as it is at that moment.
\<close>

datatype outcome =
    Exit int coro_http_server
  | Throw fault coro_http_server
  | Return coro_http_server

text \<open>
  Modelled from the spec: \<open>replace_all\<close>, a string helper of the library that is not among
  the sources; the spec has the path separators normalised to \<open>/\<close>.
\<close>

definition replace_all :: "char \<Rightarrow> char \<Rightarrow> string \<Rightarrow> string" where
  "replace_all a b str = map (\<lambda>c. if c = a then b else c) str"

text \<open>
  The loop of \<open>set_static_res_dir\<close> over \<open>files_\<close>. \<open>substr\<close> throws when the offset is
  beyond the string. The URI is built in the generic path format: \<open>/\<close>, the (relative)
  router path, then the relative file path.
\<close>

fun register_files :: "coro_http_server \<Rightarrow> string list \<Rightarrow> outcome" where
  "register_files srv [] = Return srv"
| "register_files srv (file # rest) =
     (if length file < length (static_dir srv) then Throw Out_of_range srv
      else (let relative_path = drop (length (static_dir srv)) file;
                relative_path1 =
                  (if find_char (CHR 0x5C) relative_path \<noteq> None
                   then replace_all (CHR 0x5C) (CHR ''/'') relative_path
                   else relative_path);
                uri = (if static_dir_router_path srv = [] then relative_path1
                       else ''/'' @ static_dir_router_path srv @ relative_path1)
            in register_files (set_http_handler GET uri (Static_file file) srv) rest))"

definition set_static_res_dir :: "env \<Rightarrow> string \<Rightarrow> string \<Rightarrow> coro_http_server \<Rightarrow> outcome" where
  "set_static_res_dir E uri_suffix file_path srv =
     (let has_double_dot = (contains ''..'' file_path \<or> contains ''..'' uri_suffix)
      in if has_root_path E file_path \<or> has_root_path E uri_suffix \<or> has_double_dot
         then Exit 1 (log_line ERROR [Text ''invalid file path: '', Text file_path] srv)
         else (let srv1 = (if uri_suffix \<noteq> []
                           then srv\<lparr>static_dir_router_path := make_preferred E uri_suffix\<rparr>
                           else srv);
                   srv2 = (if file_path \<noteq> []
                           then srv1\<lparr>static_dir := make_preferred E file_path\<rparr>
                           else srv1\<lparr>static_dir := current_path E\<rparr>);
                   srv3 = srv2\<lparr>files := map fst (filter (\<lambda>(p, is_dir). \<not> is_dir)
                                                  (dir_entries E (static_dir srv2)))\<rparr>
               in register_files srv3 (files srv3)))"

text \<open>
  \<open>set_max_size_of_cache_files\<close>: every regular file under \<open>static_dir_\<close> whose size is
  at most \<open>max_size\<close> and that can be opened is read, \<open>filesize\<close> bytes of it, into the
  cache. One \<open>std::error_code\<close> serves the whole loop: \<open>fs::file_size\<close> clears it when it
  succeeds and sets it when it fails, and the test at the head of the loop body then
  skips every entry that follows, since nothing clears it any more.
\<close>

fun cache_files ::
  "env \<Rightarrow> nat \<Rightarrow> (string \<times> bool) list \<Rightarrow> bool \<Rightarrow> (string \<rightharpoonup> bytes) \<Rightarrow> (string \<rightharpoonup> bytes)"
where
  "cache_files E max_size [] ec cache = cache"
| "cache_files E max_size ((path, is_dir) # rest) ec cache =
     (if ec then cache_files E max_size rest ec cache
      else if is_dir then cache_files E max_size rest ec cache
      else (case fs_file_size E path of
              None \<Rightarrow> cache_files E max_size rest True cache
            | Some filesize \<Rightarrow>
                if max_size < filesize then cache_files E max_size rest False cache
                else (case disk E path of
                        None \<Rightarrow> cache_files E max_size rest False cache
                      | Some d \<Rightarrow>
                          cache_files E max_size rest False
                            (emplace path (take filesize d) cache))))"

definition set_max_size_of_cache_files ::
  "env \<Rightarrow> nat \<Rightarrow> coro_http_server \<Rightarrow> coro_http_server" where
  "set_max_size_of_cache_files E max_size srv =
     srv\<lparr>static_file_cache :=
           cache_files E max_size (dir_entries E (static_dir srv)) False
             (static_file_cache srv)\<rparr>"

definition set_file_resp_format_type ::
  "file_resp_format_type \<Rightarrow> coro_http_server \<Rightarrow> coro_http_server" where
  "set_file_resp_format_type t srv = srv\<lparr>format_type := t\<rparr>"

definition set_transfer_chunked_size :: "nat \<Rightarrow> coro_http_server \<Rightarrow> coro_http_server" where
  "set_transfer_chunked_size n srv = srv\<lparr>chunked_size := n\<rparr>"

section \<open>The proxy handler\<close>

text \<open>
  Modelled from the spec: the upstream client collaborator,
  \<open>async_request(path, method, body_ctx, headers)\<close> giving status, headers and body.
  The client records each request it is given and answers it by \<open>answer\<close>.
\<close>

record resp_data =
  r_status :: nat
  r_resp_headers :: "(string \<times> string) list"
  r_resp_body :: bytes

record upstream_request =
  u_path :: string
  u_method :: http_method
  u_content :: bytes
  u_headers :: "(string \<times> string) list"

record coro_http_client =
  requests :: "upstream_request list"
  answer :: "upstream_request \<Rightarrow> resp_data"

definition async_request ::
  "coro_http_client \<Rightarrow> string \<Rightarrow> http_method \<Rightarrow> bytes \<Rightarrow> (string \<times> string) list
   \<Rightarrow> resp_data \<times> coro_http_client"
where
  "async_request client path m body hdrs =
     (let rq = \<lparr>u_path = path, u_method = m, u_content = body, u_headers = hdrs\<rparr>
      in (answer client rq, client\<lparr>requests := requests client @ [rq]\<rparr>))"

text \<open>
  \<open>reply\<close>. The first loop of the source ranges over the local map \<open>req_headers\<close>, which
  was created empty on the line before, and emplaces into that same map.
\<close>

definition reply ::
  "coro_http_client \<Rightarrow> string \<Rightarrow> coro_http_request \<Rightarrow> coro_http_response \<Rightarrow> connection
   \<Rightarrow> coro_http_client \<times> coro_http_response \<times> connection"
where
  "reply client url_path req response conn =
     (let req_headers0 = ([] :: (string \<times> string) list);
          req_headers1 = fold (\<lambda>(k, v) m. emplace_list k v m) req_headers0 req_headers0;
          (result, client1) =
            async_request client url_path (req_method req) (req_body req) req_headers1;
          response1 = fold (\<lambda>(k, v) r. add_header k v r) (r_resp_headers result) response;
          response2 = set_status_and_content (r_status result) (r_resp_body result) response1;
          (_, conn1) = conn_call conn (Reply response2);
          response3 = set_delay True response2
      in (client1, response3, conn1))"

section \<open>Lifecycle: construction, start, accept, stop\<close>

text \<open>
  The members are named as in the class, without the trailing underscore. \<open>out_ctx\<close> and
  \<open>pool\<close> tell whether the pointer is set; \<open>acceptor_close_waiter\<close> tells whether the
  promise has its value; \<open>accept_running\<close> tells whether the \<open>accept\<close> coroutine has been
  started and has not returned; \<open>closed_conns\<close> is the set of the connections on which
  \<open>close(false)\<close> was called (the table is walked in no specified order), and
  \<open>started_conns\<close> lists the connections whose driver was detached.
\<close>

definition new_server :: "pool_state option \<Rightarrow> bool \<Rightarrow> nat \<Rightarrow> coro_http_server" where
  "new_server p ctx port_no =
     \<lparr>pool = p, out_ctx = ctx, port = port_no, acceptor_open = False, thd_joinable = False,
      acceptor_close_waiter = False, accept_running = False, no_delay = True, conn_id = 0,
      connections = [], closed_conns = {}, started_conns = [], timer_cancelled = False,
      need_check = False, stop_timer = False, static_dir_router_path = [], static_dir = [],
      files = [], chunked_size = 1024 * 10, static_file_cache = Map.empty,
      format_type = Resp_chunked, router = [], need_shrink_every_time = False, logged = []\<rparr>"

definition server_on_context :: "nat \<Rightarrow> coro_http_server" where
  "server_on_context port_no = new_server None True port_no"

definition server_with_pool :: "nat \<Rightarrow> coro_http_server" where
  "server_with_pool port_no = new_server (Some Pool_idle) False port_no"

datatype errc = No_error | Operation_canceled | Address_in_use | Io_error

text \<open>The network as \<open>listen\<close> meets it: whether \<open>bind\<close> succeeds, and the local port.\<close>

record net =
  bind_ok :: bool
  local_port :: "nat option"

definition listen :: "net \<Rightarrow> coro_http_server \<Rightarrow> errc \<times> coro_http_server" where
  "listen N srv =
     (let srv1 = (log_line INFO [Text ''begin to listen''] srv)\<lparr>acceptor_open := True\<rparr>
      in if \<not> bind_ok N
         then (Address_in_use,
               (log_line ERROR [Text ''bind port: '', Num (port srv1), Text '' error: ''] srv1)
                 \<lparr>acceptor_open := False\<rparr>)
         else (case local_port N of
                 None \<Rightarrow>
                   (Address_in_use,
                    log_line ERROR [Text ''get local endpoint port: '', Num (port srv1),
                                    Text '' error: ''] srv1)
               | Some p \<Rightarrow>
                   (No_error,
                    log_line INFO [Text ''listen port '', Num p, Text '' successfully'']
                      (srv1\<lparr>port := p\<rparr>))))"

text \<open>
  One turn of the \<open>for (;;)\<close> of \<open>accept\<close>, on the outcome of \<open>async_accept\<close>: either the
  loop goes on, or the coroutine returns an error code.
\<close>

datatype accept_result = Accepted nat | Accept_error asio_error

datatype step = Continue coro_http_server | Co_return errc coro_http_server

definition accept_step :: "coro_http_server \<Rightarrow> accept_result \<Rightarrow> step" where
  "accept_step srv res =
     (case res of
        Accept_error error \<Rightarrow>
          (let srv1 = log_line INFO [Text ''accept failed, error: '', Err error] srv
           in if error = Operation_aborted \<or> error = Bad_descriptor
              then Co_return Operation_canceled (srv1\<lparr>acceptor_close_waiter := True\<rparr>)
              else Continue srv1)
      | Accepted socket \<Rightarrow>
          (let new_id = (conn_id srv + 1) mod 2 ^ 64;
               srv1 = log_line DEBUG [Text ''new connection comming, id: '', Num new_id]
                        (srv\<lparr>conn_id := new_id\<rparr>);
               conn = \<lparr>c_socket = socket, c_own_executor = (\<not> out_ctx srv1),
                       c_no_delay = no_delay srv1,
                       c_shrink_to_fit = need_shrink_every_time srv1,
                       c_check_timeout = need_check srv1, c_quit_id = new_id\<rparr>
           in Continue (srv1\<lparr>connections := emplace_list new_id conn (connections srv1),
                              started_conns := started_conns srv1 @ [new_id]\<rparr>)))"

text \<open>
  The coroutine on the outcomes of its successive accepts. When they are used up it is
  suspended in \<open>async_accept\<close>: \<open>Continue\<close> with the state reached.
\<close>

fun accept :: "coro_http_server \<Rightarrow> accept_result list \<Rightarrow> step" where
  "accept srv [] = Continue srv"
| "accept srv (res # rest) =
     (case accept_step srv res of
        Continue srv1 \<Rightarrow> accept srv1 rest
      | Co_return ec srv1 \<Rightarrow> Co_return ec (srv1\<lparr>accept_running := False\<rparr>))"

text \<open>
  \<open>async_start\<close>: the future it returns is resolved at once when \<open>listen\<close> fails and is
  pending on the accept loop otherwise.
\<close>

definition async_start :: "net \<Rightarrow> coro_http_server \<Rightarrow> errc option \<times> coro_http_server" where
  "async_start N srv =
     (case listen N srv of
        (ec, srv1) \<Rightarrow>
          if ec = No_error
          then (let srv2 = (if \<not> out_ctx srv1
                            then srv1\<lparr>thd_joinable := True,
                                      pool := map_option (\<lambda>_. Pool_running) (pool srv1)\<rparr>
                            else srv1)
                in (None, srv2\<lparr>accept_running := True\<rparr>))
          else (Some ec, srv1))"

text \<open>
  \<open>close_acceptor\<close> has the acceptor cancelled and closed on its executor and then
  waits for the promise. The accept coroutine, if it is running, meets
  \<open>operation_aborted\<close> and takes its turn on it; the wait returns once the promise has its
  value, and never returns (\<open>None\<close>) when no accept coroutine is there to give it one.
\<close>

definition close_acceptor :: "coro_http_server \<Rightarrow> coro_http_server option" where
  "close_acceptor srv =
     (let srv1 = srv\<lparr>acceptor_open := False\<rparr>;
          srv2 = (if accept_running srv1
                  then (case accept srv1 [Accept_error Operation_aborted] of
                          Continue s \<Rightarrow> s
                        | Co_return ec s \<Rightarrow> s)
                  else srv1)
      in if acceptor_close_waiter srv2 then Some srv2 else None)"

definition stop :: "coro_http_server \<Rightarrow> coro_http_server option" where
  "stop srv =
     (if \<not> out_ctx srv \<and> \<not> thd_joinable srv then Some srv
      else (let srv1 = srv\<lparr>stop_timer := True, timer_cancelled := True\<rparr>
            in case close_acceptor srv1 of
                 None \<Rightarrow> None
               | Some srv2 \<Rightarrow>
                   (let srv3 = srv2\<lparr>closed_conns := closed_conns srv2
                                                    \<union> fst ` set (connections srv2),
                                    connections := []\<rparr>
                    in if \<not> out_ctx srv3
                       then Some ((log_line INFO [Text ''stop coro_http_server ok'']
                                    (log_line INFO [Text ''server's thread-pool finished.'']
                                      (log_line INFO
                                        [Text ''wait for server's thread-pool finish all work.'']
                                        (srv3\<lparr>pool := map_option (\<lambda>_. Pool_stopped)
                                                         (pool srv3)\<rparr>))))
                                  \<lparr>thd_joinable := False\<rparr>)
                       else Some (srv3\<lparr>out_ctx := False\<rparr>))))"

section \<open>Notions used in the statements\<close>

text \<open>
  A script of outcomes that holds no failure; the bytes \<open>xs\<close> cut into pieces of \<open>k\<close>,
  each piece followed by \<open>sep\<close>; and the reading back of a decimal string, the inverse
  of \<open>to_string\<close>.
\<close>

definition never_fails :: "bool list \<Rightarrow> bool" where
  "never_fails script = (False \<notin> set script)"

function chunks_then :: "nat \<Rightarrow> string \<Rightarrow> bytes \<Rightarrow> bytes" where
  "chunks_then k sep xs =
     (if k = 0 \<or> xs = [] then []
      else take k xs @ sep @ chunks_then k sep (drop k xs))"
  by pat_completeness auto
termination
  by (relation "measure (\<lambda>(k, sep, xs). length xs)") auto

declare chunks_then.simps [simp del]

definition digit_value :: "char \<Rightarrow> nat" where
  "digit_value c = (case find_char c ''0123456789'' of Some i \<Rightarrow> i | None \<Rightarrow> 0)"

fun from_string :: "nat \<Rightarrow> string \<Rightarrow> nat" where
  "from_string acc [] = acc"
| "from_string acc (c # cs) = from_string (10 * acc + digit_value c) cs"

text \<open>
  For the multipart response: the bytes of a range; the delimiter that follows part \<open>i\<close>
  of \<open>k\<close> (\<open>MULTIPART_END\<close> after the last part, \<open>CRCF\<close> after the others); the body as
  the spec frames it, each part header followed by the bytes of its range and one
  delimiter (\<open>framed_parts\<close>); the same with the bytes of each range cut into chunks and
  the delimiter after every chunk (\<open>streamed_parts\<close>); and what \<open>build_part_heads\<close> adds
  to \<open>content_len\<close> for one range.
\<close>

definition range_bytes :: "bytes \<Rightarrow> nat \<times> nat \<Rightarrow> bytes" where
  "range_bytes d r = take (snd r + 1 - fst r) (drop (fst r) d)"

definition part_delim :: "env \<Rightarrow> nat \<Rightarrow> nat \<Rightarrow> string" where
  "part_delim E k i = (if i = k - 1 then MULTIPART_END E else CRCF)"

definition streamed_parts ::
  "nat \<Rightarrow> env \<Rightarrow> (nat \<times> nat) list \<Rightarrow> string list \<Rightarrow> bytes \<Rightarrow> nat \<Rightarrow> bytes" where
  "streamed_parts n E ranges heads d i =
     concat (map (\<lambda>j. heads ! j
                       @ chunks_then n (part_delim E (length ranges) j)
                           (range_bytes d (ranges ! j)))
               [i..<length ranges])"

definition framed_parts ::
  "env \<Rightarrow> (nat \<times> nat) list \<Rightarrow> string list \<Rightarrow> bytes \<Rightarrow> bytes" where
  "framed_parts E ranges heads d =
     concat (map (\<lambda>j. heads ! j @ range_bytes d (ranges ! j)
                       @ part_delim E (length ranges) j)
               [0..<length ranges])"

definition part_cost :: "string \<Rightarrow> string \<Rightarrow> string \<Rightarrow> nat \<times> nat \<Rightarrow> nat" where
  "part_cost B mime fs r = length (part_head B mime fs r) + (snd r + 1 - fst r) + 2"

section \<open>Sample inputs\<close>

text \<open>
  Concrete inputs on which the properties below are evaluated: a POSIX-like environment
  with one ten-byte file, and servers in the states that a start leaves behind.
\<close>

definition sample_env :: env where
  "sample_env =
     \<lparr>BOUNDARY = ''XBOUNDARYX'',
      MULTIPART_END = CRCF @ ''--XBOUNDARYX--'',
      get_extension = (\<lambda>f. dropWhile (\<lambda>c. c \<noteq> CHR ''.'') f),
      get_mime_type = (\<lambda>e. if e = ''.txt'' then ''text/plain''
                               else ''application/octet-stream''),
      parse_ranges = (\<lambda>str n. if str = ''2-5'' then ([(2, 5)], True)
                                 else if str = ''0-3,5-6'' then ([(0, 3), (5, 6)], True)
                                 else ([], False)),
      disk = [''www/a.txt'' \<mapsto> ''0123456789''],
      read_outcomes = [],
      has_root_path = (\<lambda>p. case p of [] \<Rightarrow> False | c # _ \<Rightarrow> c = CHR ''/''),
      make_preferred = (\<lambda>p. p),
      current_path = ''/srv'',
      dir_entries = (\<lambda>d. if d = ''www'' then [(''www/a.txt'', False)] else [])\<rparr>"

definition start_failed_server :: coro_http_server where
  "start_failed_server =
     snd (async_start \<lparr>bind_ok = True, local_port = None\<rparr> (server_with_pool 8080))"

definition running_server :: coro_http_server where
  "running_server =
     (case accept (snd (async_start \<lparr>bind_ok = True, local_port = Some 8080\<rparr>
                          (server_with_pool 8080))) [Accepted 7] of
        Continue s \<Rightarrow> s
      | Co_return e s \<Rightarrow> s)"

definition get_with_range :: "string \<Rightarrow> coro_http_request" where
  "get_with_range v = \<lparr>req_method = GET, req_headers = [(''Range'', v)], req_body = []\<rparr>"

definition plain_get :: coro_http_request where
  "plain_get = \<lparr>req_method = GET, req_headers = [], req_body = []\<rparr>"

definition sample_response :: coro_http_response where
  "sample_response = \<lparr>status = 200, content = [], headers = [], delay = False, fmt_type = Normal\<rparr>"

definition fresh_connection :: connection where
  "fresh_connection = \<lparr>calls = [], peer = []\<rparr>"

definition configured_server :: coro_http_server where
  "configured_server =
     (case set_static_res_dir sample_env ''static'' ''www'' (server_with_pool 8080) of
        Return s \<Rightarrow> s | Exit code s \<Rightarrow> s | Throw e s \<Rightarrow> s)"

definition caching_server :: coro_http_server where
  "caching_server = set_max_size_of_cache_files sample_env (3 * 1024 * 1024) configured_server"

definition truncated_env :: env where
  "truncated_env = sample_env\<lparr>disk := [''www/a.txt'' \<mapsto> ''0123'']\<rparr>"

definition deleted_env :: env where
  "deleted_env = sample_env\<lparr>disk := Map.empty\<rparr>"

definition unreadable_first_env :: env where
  "unreadable_first_env =
     sample_env\<lparr>dir_entries := (\<lambda>d. if d = ''www''
                                       then [(''www/gone.txt'', False), (''www/a.txt'', False)]
                                       else [])\<rparr>"

definition small_chunk_server :: coro_http_server where
  "small_chunk_server = set_transfer_chunked_size 2 (server_with_pool 8080)"

section \<open>Properties\<close>

text \<open>
  C9. A call of \<open>send_single_part\<close> with \<open>part_size = 0\<close> makes no call on the connection
  at all (no body bytes, and not the trailing \<open>more\<close> either), leaves the file and the
  response as they were, and returns \<open>true\<close>.
\<close>

theorem send_single_part_zero:
  "send_single_part srv in_file conn resp 0 more' = (True, in_file, conn, resp)"
  by (simp add: send_single_part.simps)

subsection \<open>Substring search\<close>

lemma is_prefix_iff: "is_prefix pat s \<longleftrightarrow> (\<exists>v. s = pat @ v)"
  by (induction pat s rule: is_prefix.induct) auto

lemma contains_iff: "contains pat s \<longleftrightarrow> (\<exists>u v. s = u @ pat @ v)"
proof (induction s)
  case Nil
  then show ?case by auto
next
  case (Cons y ys)
  show ?case
  proof
    assume "contains pat (y # ys)"
    then consider "is_prefix pat (y # ys)" | "contains pat ys" by auto
    then show "\<exists>u v. y # ys = u @ pat @ v"
    proof cases
      case 1
      then obtain v where "y # ys = pat @ v" by (auto simp: is_prefix_iff)
      then have "y # ys = [] @ pat @ v" by simp
      then show ?thesis by blast
    next
      case 2
      then obtain u v where "ys = u @ pat @ v" using Cons.IH by blast
      then have "y # ys = (y # u) @ pat @ v" by simp
      then show ?thesis by blast
    qed
  next
    assume "\<exists>u v. y # ys = u @ pat @ v"
    then obtain u v where uv: "y # ys = u @ pat @ v" by blast
    show "contains pat (y # ys)"
    proof (cases u)
      case Nil
      with uv have "is_prefix pat (y # ys)" by (auto simp: is_prefix_iff)
      then show ?thesis by simp
    next
      case (Cons a u')
      with uv have "ys = u' @ pat @ v" by simp
      then have "contains pat ys" using Cons.IH by blast
      then show ?thesis by simp
    qed
  qed
qed

subsection \<open>Static configuration\<close>

text \<open>
  C5. When the file path or the URI prefix has \<open>..\<close> somewhere in it, or has a root path,
  \<open>set_static_res_dir\<close> ends in \<open>std::exit(1)\<close>, a non-zero code, having logged the error
  and nothing else: the router holds the routes it held before.
\<close>

theorem set_static_res_dir_rejects:
  assumes "(\<exists>u v. file_path = u @ ''..'' @ v) \<or> (\<exists>u v. uri_suffix = u @ ''..'' @ v)
           \<or> has_root_path E file_path \<or> has_root_path E uri_suffix"
  shows "set_static_res_dir E uri_suffix file_path srv =
           Exit 1 (log_line ERROR [Text ''invalid file path: '', Text file_path] srv)
         \<and> router (log_line ERROR [Text ''invalid file path: '', Text file_path] srv)
             = router srv
         \<and> (1::int) \<noteq> 0"
  using assms by (auto simp: set_static_res_dir_def contains_iff log_line_def)

theorem set_static_res_dir_rejects_witness:
  "has_root_path sample_env ''/etc''
   \<and> set_static_res_dir sample_env ''static'' ''/etc'' (server_with_pool 8080) =
       Exit 1 (log_line ERROR [Text ''invalid file path: '', Text ''/etc'']
                 (server_with_pool 8080))
   \<and> router (log_line ERROR [Text ''invalid file path: '', Text ''/etc'']
               (server_with_pool 8080)) = []"
proof -
  have h: "has_root_path sample_env ''/etc''"
    by (simp add: sample_env_def)
  have r: "router (server_with_pool 8080) = []"
    by (simp add: server_with_pool_def new_server_def)
  from h have "(\<exists>u v. ''/etc'' = u @ ''..'' @ v) \<or> (\<exists>u v. ''static'' = u @ ''..'' @ v)
               \<or> has_root_path sample_env ''/etc'' \<or> has_root_path sample_env ''static''"
    by blast
  from set_static_res_dir_rejects [OF this, of "server_with_pool 8080"] h r
  show ?thesis by simp
qed

subsection \<open>The proxy handler\<close>

lemma fold_add_header:
  "fold (\<lambda>(k, v) r. add_header k v r) hs resp = resp\<lparr>headers := headers resp @ hs\<rparr>"
  by (induction hs arbitrary: resp) (auto simp: add_header_def)

text \<open>
  C1, as the code behaves. The request that \<open>reply\<close> gives the upstream client has the
  path, the method and the body of the incoming request and an empty header map,
  whatever headers the incoming request carries. The headers of the upstream response
  are added to the outgoing response, and its status and body set, before the reply is
  performed; the response is switched to delayed mode after it.
\<close>

theorem reply_forwards_no_headers:
  "(let rq = \<lparr>u_path = url_path, u_method = req_method req, u_content = req_body req,
              u_headers = []\<rparr>;
        result = answer client rq;
        at_reply = response\<lparr>headers := headers response @ r_resp_headers result,
                            status := r_status result, content := r_resp_body result\<rparr>
    in reply client url_path req response conn =
         (client\<lparr>requests := requests client @ [rq]\<rparr>,
          at_reply\<lparr>delay := True\<rparr>,
          conn\<lparr>calls := calls conn @ [(Reply at_reply, next_ok (peer conn))],
               peer := tl (peer conn)\<rparr>))"
  by (simp add: reply_def async_request_def conn_call_def Let_def fold_add_header
        set_status_and_content_def set_delay_def)

subsection \<open>The accept loop\<close>

text \<open>
  C6. When \<open>async_accept\<close> fails with \<open>operation_aborted\<close> or \<open>bad_descriptor\<close>, the loop
  logs the error, gives the \<open>acceptor_close_waiter\<close> promise its value and returns
  \<open>operation_canceled\<close>; on any other error it logs the error and goes on with the next
  accept.
\<close>

theorem accept_error_handling:
  "(error = Operation_aborted \<or> error = Bad_descriptor \<longrightarrow>
      accept srv (Accept_error error # rest) =
        Co_return Operation_canceled
          ((log_line INFO [Text ''accept failed, error: '', Err error] srv)
             \<lparr>acceptor_close_waiter := True, accept_running := False\<rparr>))
   \<and> (error \<noteq> Operation_aborted \<and> error \<noteq> Bad_descriptor \<longrightarrow>
      accept srv (Accept_error error # rest) =
        accept (log_line INFO [Text ''accept failed, error: '', Err error] srv) rest)"
  by (simp add: accept_step_def Let_def)

theorem accept_error_handling_witness:
  "Other_error 24 \<noteq> Operation_aborted \<and> Other_error 24 \<noteq> Bad_descriptor
   \<and> accept (server_with_pool 8080)
        [Accept_error (Other_error 24), Accept_error Bad_descriptor] =
      Co_return Operation_canceled
        ((log_line INFO [Text ''accept failed, error: '', Err Bad_descriptor]
           (log_line INFO [Text ''accept failed, error: '', Err (Other_error 24)]
              (server_with_pool 8080)))
         \<lparr>acceptor_close_waiter := True, accept_running := False\<rparr>)"
  using accept_error_handling [of "Other_error 24" "server_with_pool 8080"
          "[Accept_error Bad_descriptor]"]
        accept_error_handling [of Bad_descriptor
          "log_line INFO [Text ''accept failed, error: '', Err (Other_error 24)]
             (server_with_pool 8080)" "[]"]
  by simp

subsection \<open>Stopping\<close>

lemma close_acceptor_closed:
  "close_acceptor s = Some s' \<Longrightarrow>
     \<not> acceptor_open s' \<and> \<not> accept_running s' \<and> connections s' = connections s
     \<and> out_ctx s' = out_ctx s \<and> thd_joinable s' = thd_joinable s"
  by (auto simp: close_acceptor_def accept_step_def log_line_def Let_def split: if_splits)

lemma running_server_eq:
  "running_server =
     \<lparr>pool = Some Pool_running, out_ctx = False, port = 8080, acceptor_open = True,
      thd_joinable = True, acceptor_close_waiter = False, accept_running = True,
      no_delay = True, conn_id = 1,
      connections = [(1, \<lparr>c_socket = 7, c_own_executor = True, c_no_delay = True,
                           c_shrink_to_fit = False, c_check_timeout = False,
                           c_quit_id = 1\<rparr>)],
      closed_conns = {}, started_conns = [1], timer_cancelled = False,
      need_check = False, stop_timer = False, static_dir_router_path = [],
      static_dir = [], files = [], chunked_size = 10240,
      static_file_cache = Map.empty, format_type = Resp_chunked, router = [],
      need_shrink_every_time = False,
      logged = [(INFO, [Text ''begin to listen'']),
                (INFO, [Text ''listen port '', Num 8080, Text '' successfully'']),
                (DEBUG, [Text ''new connection comming, id: '', Num 1])]\<rparr>"
  by (simp add: running_server_def accept_step_def async_start_def listen_def
        server_with_pool_def new_server_def log_line_def emplace_list_def)

text \<open>
  The thread is never joinable while a borrowed context is held: the constructors start
  no thread, \<open>async_start\<close> starts one only when \<open>out_ctx_\<close> is null, and \<open>listen\<close>, the
  accept loop and \<open>stop\<close> keep it so.
\<close>

lemma new_server_thread:
  "\<not> thd_joinable (server_on_context p)" "\<not> thd_joinable (server_with_pool p)"
  by (simp_all add: server_on_context_def server_with_pool_def new_server_def)

lemma listen_keeps:
  "out_ctx (snd (listen N s)) = out_ctx s" "thd_joinable (snd (listen N s)) = thd_joinable s"
  by (simp_all add: listen_def log_line_def Let_def split: option.split)

lemma async_start_thread:
  assumes "\<not> (out_ctx s \<and> thd_joinable s)"
  shows "\<not> (out_ctx (snd (async_start N s)) \<and> thd_joinable (snd (async_start N s)))"
proof -
  obtain ec s1 where l: "listen N s = (ec, s1)" by (cases "listen N s")
  with listen_keeps [of N s] have k: "out_ctx s1 = out_ctx s" "thd_joinable s1 = thd_joinable s"
    by simp_all
  show ?thesis
  proof (cases "ec = No_error")
    case True
    with l k assms show ?thesis by (simp add: async_start_def Let_def)
  next
    case False
    with l k assms show ?thesis by (simp add: async_start_def)
  qed
qed

lemma accept_step_thread:
  assumes "accept_step s res = Continue s' \<or> accept_step s res = Co_return ec s'"
  shows "out_ctx s' = out_ctx s \<and> thd_joinable s' = thd_joinable s"
proof (cases res)
  case (Accepted sock)
  with assms show ?thesis by (auto simp: accept_step_def log_line_def Let_def)
next
  case (Accept_error e)
  with assms show ?thesis
    by (auto simp: accept_step_def log_line_def Let_def split: if_splits)
qed

lemma stop_thread:
  assumes "stop s = Some s'" and "\<not> (out_ctx s \<and> thd_joinable s)"
  shows "\<not> out_ctx s' \<and> \<not> thd_joinable s'"
proof (cases "\<not> out_ctx s \<and> \<not> thd_joinable s")
  case True
  with assms show ?thesis by (simp add: stop_def)
next
  case False
  with assms obtain s2 where
    ca: "close_acceptor (s\<lparr>stop_timer := True, timer_cancelled := True\<rparr>) = Some s2"
    by (auto simp: stop_def Let_def split: option.splits)
  from close_acceptor_closed [OF ca] have
    "out_ctx s2 = out_ctx s" "thd_joinable s2 = thd_joinable s" by simp_all
  with assms False ca show ?thesis
    by (auto simp: stop_def Let_def log_line_def split: if_splits)
qed

text \<open>
  A second \<open>stop\<close> after a first one that returned changes nothing. When the first call
  passes the guard (a borrowed context is held, or the thread is joinable), the
  connection table is empty and the acceptor closed after it; when the first call meets
  the guard, it returns at once and leaves the server as it found it.
\<close>

lemma stop_twice:
  assumes "stop s = Some s'" and "\<not> (out_ctx s \<and> thd_joinable s)"
  shows "stop s' = Some s'
         \<and> (out_ctx s \<or> thd_joinable s \<longrightarrow> connections s' = [] \<and> \<not> acceptor_open s')
         \<and> (\<not> out_ctx s \<and> \<not> thd_joinable s \<longrightarrow> s' = s)"
proof (cases "\<not> out_ctx s \<and> \<not> thd_joinable s")
  case True
  with assms have "s' = s" by (simp add: stop_def)
  with True show ?thesis by (simp add: stop_def)
next
  case False
  with assms obtain s2 where
    ca: "close_acceptor (s\<lparr>stop_timer := True, timer_cancelled := True\<rparr>) = Some s2"
    by (auto simp: stop_def Let_def split: option.splits)
  from close_acceptor_closed [OF ca] have
    s2: "\<not> acceptor_open s2" "out_ctx s2 = out_ctx s" "thd_joinable s2 = thd_joinable s"
    by simp_all
  from assms False ca s2 have
    post: "\<not> out_ctx s'" "\<not> thd_joinable s'" "connections s' = []" "\<not> acceptor_open s'"
    by (auto simp: stop_def Let_def log_line_def split: if_splits)
  then have "stop s' = Some s'" by (simp add: stop_def)
  with False post show ?thesis by blast
qed

text \<open>
  So what the spec says of \<open>stop\<close> holds wherever a server that meets the guard has an
  empty table and a closed acceptor: two calls do what one does, and after the first the
  table is empty and the acceptor closed. A server that was never started, one whose
  \<open>bind\<close> failed, and a running one are such servers.
\<close>

lemma stop_twice_closed:
  assumes "stop s = Some s'" and "\<not> (out_ctx s \<and> thd_joinable s)"
    and "\<not> out_ctx s \<and> \<not> thd_joinable s \<longrightarrow> connections s = [] \<and> \<not> acceptor_open s"
  shows "stop s' = Some s' \<and> connections s' = [] \<and> \<not> acceptor_open s'"
  using stop_twice [OF assms(1,2)] assms(3) by blast

lemma stop_never_started:
  "stop (server_with_pool p) = Some (server_with_pool p)"
  "connections (server_with_pool p) = []" "\<not> acceptor_open (server_with_pool p)"
  by (simp_all add: stop_def server_with_pool_def new_server_def)

lemma stop_running_server:
  "stop running_server \<noteq> None
   \<and> connections running_server \<noteq> []
   \<and> stop (the (stop running_server)) = stop running_server
   \<and> connections (the (stop running_server)) = []
   \<and> \<not> acceptor_open (the (stop running_server))"
proof -
  have a: "stop running_server \<noteq> None"
    by (simp add: running_server_eq stop_def close_acceptor_def accept_step_def
          log_line_def)
  then have b: "stop running_server = Some (the (stop running_server))" by simp
  have c: "\<not> (out_ctx running_server \<and> thd_joinable running_server)"
    by (simp add: running_server_eq)
  have d: "thd_joinable running_server" "connections running_server \<noteq> []"
    by (simp_all add: running_server_eq)
  from stop_twice [OF b c] a b c d show ?thesis by simp
qed

text \<open>
  C7. The spec says that after the first \<open>stop\<close> the connection table is empty and the
  acceptor is closed. The code does not do so on this input: a server with its own pool
  is started, \<open>listen\<close> gets past \<open>bind\<close> and fails at \<open>local_endpoint\<close>, where it returns
  without the cancel and close of the acceptor that it performs after a failed \<open>bind\<close>.
  No thread was started, so the first \<open>stop\<close> returns at its guard: the server is as it
  was, and its acceptor is still open after the call. Had \<open>bind\<close> failed instead, the
  acceptor would be closed.
\<close>

theorem stop_leaves_acceptor_open:
  "stop start_failed_server = Some start_failed_server
   \<and> acceptor_open start_failed_server
   \<and> \<not> acceptor_open
         (snd (async_start \<lparr>bind_ok = False, local_port = None\<rparr> (server_with_pool 8080)))"
  by (simp add: start_failed_server_def stop_def async_start_def listen_def
        server_with_pool_def new_server_def log_line_def)

subsection \<open>Decimal rendering\<close>

lemma digit_value_digit_char: "d < 10 \<Longrightarrow> digit_value (digit_char d) = d"
proof -
  assume "d < 10"
  then have "d = 0 \<or> d = 1 \<or> d = 2 \<or> d = 3 \<or> d = 4 \<or> d = 5 \<or> d = 6 \<or> d = 7 \<or> d = 8 \<or> d = 9"
    by arith
  then show ?thesis
    by (elim disjE) (simp_all add: digit_char_def digit_value_def)
qed

lemma from_string_snoc: "from_string acc (cs @ [c]) = 10 * from_string acc cs + digit_value c"
  by (induction cs arbitrary: acc) simp_all

lemma from_string_to_string: "from_string 0 (to_string n) = n"
proof (induction n rule: to_string.induct)
  case (1 n)
  show ?case
  proof (cases "n < 10")
    case True
    then show ?thesis
      by (simp add: to_string.simps [of n] digit_value_digit_char)
  next
    case False
    with 1 have "from_string 0 (to_string (n div 10)) = n div 10" by simp
    with False show ?thesis
      by (simp add: to_string.simps [of n] from_string_snoc digit_value_digit_char)
  qed
qed

lemma to_string_inj: "to_string m = to_string n \<longleftrightarrow> m = n"
  by (metis from_string_to_string)

lemma to_string_200: "to_string 200 = ''200''"
  by (simp add: to_string.simps [of 200] to_string.simps [of 20] to_string.simps [of 2] digit_char_def)

lemma to_string_206: "to_string 206 = ''206''"
  by (simp add: to_string.simps [of 206] to_string.simps [of 20] to_string.simps [of 2] digit_char_def)

lemma to_string_digits:
  "to_string 2 = ''2''" "to_string 4 = ''4''" "to_string 5 = ''5''" "to_string 10 = ''10''"
  by (simp_all add: to_string.simps digit_char_def)

lemma to_string_ten:
  "to_string (Suc (Suc (Suc (Suc (Suc (Suc (Suc (Suc (Suc (Suc 0)))))))))) = ''10''"
proof -
  have "Suc (Suc (Suc (Suc (Suc (Suc (Suc (Suc (Suc (Suc 0))))))))) = 10" by simp
  then show ?thesis by (simp only: to_string_digits)
qed

subsection \<open>Evaluation on the sample inputs\<close>

lemmas sample_defs = sample_env_def get_header_value_def server_with_pool_def new_server_def
  get_with_range_def plain_get_def sample_response_def fresh_connection_def

lemmas handler_eval = static_file_handler_def async_open_def fs_file_size_def
  serve_ranges_def serve_single_range_def serve_chunked_def serve_cached_def
  seek_def conn_call_def next_ok_def async_read_def size_t_def set_delay_def
  set_status_def set_format_type_def set_transfer_chunked_size_def Let_def

lemma configured_server_eq:
  "configured_server =
     (server_with_pool 8080)
       \<lparr>static_dir_router_path := ''static'', static_dir := ''www'', files := [''www/a.txt''],
        router := [(GET, ''/static/a.txt'', Static_file ''www/a.txt'')]\<rparr>"
  by (simp add: configured_server_def set_static_res_dir_def sample_defs set_http_handler_def
        Let_def)

lemma caching_server_cache:
  "static_file_cache caching_server ''www/a.txt'' = Some ''0123456789''"
  by (simp add: caching_server_def configured_server_eq set_max_size_of_cache_files_def
        sample_defs fs_file_size_def emplace_def)

subsection \<open>Cache hit\<close>

text \<open>
  C4, as the code behaves. For a file that is in the cache and is still on disk when the
  request is served, the handler sets the response to delayed mode and makes exactly one
  call on the connection: a gather-write of the header with status 200 and
  \<open>Content-Length\<close> the size of the file, followed by the cached body. The request does
  not enter the result: a \<open>Range\<close> header changes nothing.
\<close>

theorem cache_hit_gather_write:
  assumes "static_file_cache srv file_name = Some body" and "disk E file_name = Some d"
  shows "static_file_handler E srv file_name req resp conn =
           Some (Inr (resp\<lparr>delay := True\<rparr>,
                      conn\<lparr>calls := calls conn @
                              [(Async_write
                                  [''HTTP/1.1 200 OK'' @ CRCF
                                   @ ''Access-Control-Allow-origin: *'' @ CRCF
                                   @ ''Accept-Ranges: bytes'' @ CRCF
                                   @ ''Content-Disposition: attachment;filename='' @ file_name @ CRCF
                                   @ ''Connection: keep-alive'' @ CRCF
                                   @ ''Content-Type: '' @ get_mime_type E (get_extension E file_name) @ CRCF
                                   @ ''Content-Length: '' @ to_string (length d) @ CRCF @ CRCF,
                                   body],
                                next_ok (peer conn))],
                           peer := tl (peer conn)\<rparr>,
                      None))"
  using assms
  by (simp add: static_file_handler_def fs_file_size_def serve_cached_def
        build_range_header_def to_string_200 conn_call_def set_delay_def Let_def)

theorem cache_hit_gather_write_witness:
  "static_file_cache caching_server ''www/a.txt'' = Some ''0123456789''
   \<and> disk sample_env ''www/a.txt'' = Some ''0123456789''
   \<and> static_file_handler sample_env caching_server ''www/a.txt''
        (get_with_range ''bytes=2-5'') sample_response fresh_connection
      = Some (Inr (sample_response\<lparr>delay := True\<rparr>,
                   \<lparr>calls = [(Async_write
                                [''HTTP/1.1 200 OK'' @ CRCF
                                 @ ''Access-Control-Allow-origin: *'' @ CRCF
                                 @ ''Accept-Ranges: bytes'' @ CRCF
                                 @ ''Content-Disposition: attachment;filename=www/a.txt'' @ CRCF
                                 @ ''Connection: keep-alive'' @ CRCF
                                 @ ''Content-Type: text/plain'' @ CRCF
                                 @ ''Content-Length: 10'' @ CRCF @ CRCF,
                                 ''0123456789''], True)],
                    peer = []\<rparr>,
                   None))"
proof -
  have h1: "static_file_cache caching_server ''www/a.txt'' = Some ''0123456789''"
    by (rule caching_server_cache)
  have h2: "disk sample_env ''www/a.txt'' = Some ''0123456789''"
    by (simp add: sample_defs)
  have len: "length ''0123456789'' = 10" by simp
  have ten: "to_string 10 = ''10''" by (simp add: to_string.simps digit_char_def)
  have mime: "get_mime_type sample_env (get_extension sample_env ''www/a.txt'') = ''text/plain''"
    by (simp add: sample_defs)
  note r = cache_hit_gather_write [OF h1 h2, of "get_with_range ''bytes=2-5''" sample_response
             fresh_connection, unfolded len mime ten]
  with h1 h2 show ?thesis
    by (simp add: fresh_connection_def next_ok_def)
qed

text \<open>
  The claim C4 as it is written, for every request for a cached file, fails when the
  file is no longer on disk: \<open>fs::file_size\<close> throws before the response is set to delayed
  mode and before anything is written.
\<close>

theorem cache_hit_file_deleted:
  "static_file_cache caching_server ''www/a.txt'' = Some ''0123456789''
   \<and> disk deleted_env ''www/a.txt'' = None
   \<and> static_file_handler deleted_env caching_server ''www/a.txt'' plain_get sample_response
        fresh_connection
      = Some (Inl Filesystem_error)"
  by (simp add: caching_server_cache deleted_env_def sample_env_def static_file_handler_def
        fs_file_size_def Let_def)

text \<open>
  What \<open>set_max_size_of_cache_files\<close> adds to the cache is the contents that the file has
  on disk at that moment. After a failed size query it adds nothing more.
\<close>

lemma cache_files_content:
  "cache_files E m es ec cache p = Some body \<Longrightarrow>
     cache p = Some body \<or> disk E p = Some body"
proof (induction es arbitrary: ec cache)
  case Nil
  then show ?case by simp
next
  case (Cons e es)
  obtain q is_dir where e: "e = (q, is_dir)" by (cases e)
  show ?case
  proof (cases "\<not> ec \<and> \<not> is_dir \<and> (\<exists>d. disk E q = Some d \<and> length d \<le> m)")
    case True
    then obtain d where d: "disk E q = Some d" "length d \<le> m" by blast
    with True e Cons.prems
    have "cache_files E m es False (emplace q d cache) p = Some body"
      by (simp add: fs_file_size_def)
    from Cons.IH [OF this] have "emplace q d cache p = Some body \<or> disk E p = Some body" .
    with d show ?thesis by (auto simp: emplace_def split: if_splits)
  next
    case False
    with e Cons.prems have "\<exists>ec'. cache_files E m es ec' cache p = Some body"
      by (auto simp: fs_file_size_def split: if_splits option.splits)
    with Cons.IH show ?thesis by blast
  qed
qed

lemma cache_files_after_error: "cache_files E m es True cache = cache"
  by (induction es) auto

lemma unreadable_entry_stops_caching:
  "static_file_cache
     (set_max_size_of_cache_files unreadable_first_env (3 * 1024 * 1024) configured_server)
     ''www/a.txt'' = None"
  by (simp add: set_max_size_of_cache_files_def configured_server_eq unreadable_first_env_def
        sample_defs fs_file_size_def cache_files_after_error)

text \<open>
  C10. Let a request hit the cache on the body that \<open>set_max_size_of_cache_files\<close> has
  stored for \<open>p\<close>. The body is the contents that \<open>p\<close> had on disk when the cache was
  filled. The header that the handler writes before it has \<open>Content-Length\<close> the decimal
  of the size that \<open>p\<close> has on disk when the request is served, whatever the length of
  the body (and the handler writes nothing when \<open>p\<close> is no longer there); the two decimals
  are equal exactly when the two sizes are.
\<close>

theorem cache_hit_length_from_disk:
  assumes "static_file_cache srv0 p = None"
    and "static_file_cache (set_max_size_of_cache_files E0 max_size srv0) p = Some body"
  shows "disk E0 p = Some body
         \<and> static_file_handler E (set_max_size_of_cache_files E0 max_size srv0) p req resp conn
           = (case disk E p of
                None \<Rightarrow> Some (Inl Filesystem_error)
              | Some d \<Rightarrow>
                  Some (Inr (resp\<lparr>delay := True\<rparr>,
                             conn\<lparr>calls := calls conn @
                                     [(Async_write
                                         [''HTTP/1.1 200 OK'' @ CRCF
                                          @ ''Access-Control-Allow-origin: *'' @ CRCF
                                          @ ''Accept-Ranges: bytes'' @ CRCF
                                          @ ''Content-Disposition: attachment;filename='' @ p
                                          @ CRCF
                                          @ ''Connection: keep-alive'' @ CRCF
                                          @ ''Content-Type: ''
                                          @ get_mime_type E (get_extension E p) @ CRCF
                                          @ ''Content-Length: '' @ to_string (length d)
                                          @ CRCF @ CRCF,
                                          body],
                                       next_ok (peer conn))],
                                  peer := tl (peer conn)\<rparr>,
                             None)))
         \<and> (\<forall>d. to_string (length d) = to_string (length body)
                  \<longleftrightarrow> length d = length body)"
proof -
  let ?srv = "set_max_size_of_cache_files E0 max_size srv0"
  from assms(2)
  have "cache_files E0 max_size (dir_entries E0 (static_dir srv0)) False
          (static_file_cache srv0) p = Some body"
    by (simp add: set_max_size_of_cache_files_def)
  from cache_files_content [OF this] assms(1) have d0: "disk E0 p = Some body" by simp
  have h: "static_file_handler E ?srv p req resp conn
           = (case disk E p of
                None \<Rightarrow> Some (Inl Filesystem_error)
              | Some d \<Rightarrow>
                  Some (Inr (resp\<lparr>delay := True\<rparr>,
                             conn\<lparr>calls := calls conn @
                                     [(Async_write
                                         [''HTTP/1.1 200 OK'' @ CRCF
                                          @ ''Access-Control-Allow-origin: *'' @ CRCF
                                          @ ''Accept-Ranges: bytes'' @ CRCF
                                          @ ''Content-Disposition: attachment;filename='' @ p
                                          @ CRCF
                                          @ ''Connection: keep-alive'' @ CRCF
                                          @ ''Content-Type: ''
                                          @ get_mime_type E (get_extension E p) @ CRCF
                                          @ ''Content-Length: '' @ to_string (length d)
                                          @ CRCF @ CRCF,
                                          body],
                                       next_ok (peer conn))],
                                  peer := tl (peer conn)\<rparr>,
                             None)))"
    using assms(2)
    by (simp add: static_file_handler_def fs_file_size_def serve_cached_def conn_call_def
          set_delay_def build_range_header_def to_string_200 Let_def split: option.split)
  from d0 h show ?thesis by (simp add: to_string_inj)
qed

theorem cache_hit_length_from_disk_witness:
  "static_file_cache configured_server ''www/a.txt'' = None
   \<and> static_file_cache caching_server ''www/a.txt'' = Some ''0123456789''
   \<and> disk sample_env ''www/a.txt'' = Some ''0123456789''
   \<and> static_file_handler truncated_env caching_server ''www/a.txt'' plain_get sample_response
        fresh_connection
      = Some (Inr (sample_response\<lparr>delay := True\<rparr>,
                   \<lparr>calls = [(Async_write
                                [''HTTP/1.1 200 OK'' @ CRCF
                                 @ ''Access-Control-Allow-origin: *'' @ CRCF
                                 @ ''Accept-Ranges: bytes'' @ CRCF
                                 @ ''Content-Disposition: attachment;filename=www/a.txt'' @ CRCF
                                 @ ''Connection: keep-alive'' @ CRCF
                                 @ ''Content-Type: text/plain'' @ CRCF
                                 @ ''Content-Length: 4'' @ CRCF @ CRCF,
                                 ''0123456789''], True)],
                    peer = []\<rparr>,
                   None))
   \<and> to_string (length ''0123'') \<noteq> to_string (length ''0123456789'')"
proof -
  have h1: "static_file_cache configured_server ''www/a.txt'' = None"
    by (simp add: configured_server_eq sample_defs)
  have h2: "static_file_cache
              (set_max_size_of_cache_files sample_env (3 * 1024 * 1024) configured_server)
              ''www/a.txt'' = Some ''0123456789''"
    using caching_server_cache by (simp add: caching_server_def)
  have dk: "disk truncated_env ''www/a.txt'' = Some ''0123''"
    by (simp add: truncated_env_def sample_defs)
  have len: "length ''0123'' = 4" "length ''0123456789'' = 10" by simp_all
  have digits: "to_string 4 = ''4''" "to_string 10 = ''10''"
    by (simp_all add: to_string.simps digit_char_def)
  have mime: "get_mime_type truncated_env (get_extension truncated_env ''www/a.txt'')
                = ''text/plain''"
    by (simp add: truncated_env_def sample_defs)
  note r = cache_hit_length_from_disk [OF h1 h2, of truncated_env plain_get sample_response
             fresh_connection, folded caching_server_def, unfolded dk option.case len mime digits]
  from r have d0: "disk sample_env ''www/a.txt'' = Some ''0123456789''" by (rule conjunct1)
  from r [THEN conjunct2, THEN conjunct1] have main: "static_file_handler truncated_env caching_server ''www/a.txt'' plain_get
        sample_response fresh_connection
      = Some (Inr (sample_response\<lparr>delay := True\<rparr>,
                   \<lparr>calls = [(Async_write
                                [''HTTP/1.1 200 OK'' @ CRCF
                                 @ ''Access-Control-Allow-origin: *'' @ CRCF
                                 @ ''Accept-Ranges: bytes'' @ CRCF
                                 @ ''Content-Disposition: attachment;filename=www/a.txt'' @ CRCF
                                 @ ''Connection: keep-alive'' @ CRCF
                                 @ ''Content-Type: text/plain'' @ CRCF
                                 @ ''Content-Length: 4'' @ CRCF @ CRCF,
                                 ''0123456789''], True)],
                    peer = []\<rparr>,
                   None))"
    by (simp add: fresh_connection_def next_ok_def)
  have ne: "to_string (length ''0123'') \<noteq> to_string (length ''0123456789'')"
    unfolding len digits by simp
  from h1 caching_server_cache d0 main ne show ?thesis by blast
qed

subsection \<open>Reads and writes that do not fail\<close>

lemma never_fails_next: "never_fails s \<Longrightarrow> next_ok s"
  by (cases s) (auto simp: never_fails_def next_ok_def)

lemma never_fails_tl: "never_fails s \<Longrightarrow> never_fails (tl s)"
  by (cases s) (auto simp: never_fails_def)

lemma sent_snoc: "sent (c\<lparr>calls := calls c @ [x], peer := p\<rparr>) = sent c @ op_bytes x"
  by (simp add: sent_def)

lemma conn_call_ok:
  "never_fails (peer c) \<Longrightarrow>
     conn_call c op = (True, c\<lparr>calls := calls c @ [(op, True)], peer := tl (peer c)\<rparr>)"
  by (simp add: conn_call_def never_fails_next)

lemma chunks_then_no_sep: "0 < k \<Longrightarrow> chunks_then k [] xs = xs"
proof (induction "length xs" arbitrary: xs rule: less_induct)
  case less
  show ?case
  proof (cases "xs = []")
    case True
    then show ?thesis by (simp add: chunks_then.simps)
  next
    case False
    with less.prems have "length (drop k xs) < length xs" by simp
    from less.hyps [OF this less.prems] False less.prems show ?thesis
      by (simp add: chunks_then.simps [of k "[]" xs])
  qed
qed

lemma chunks_then_single: "xs \<noteq> [] \<Longrightarrow> length xs \<le> k \<Longrightarrow> chunks_then k sep xs = xs @ sep"
proof -
  assume a: "xs \<noteq> []" "length xs \<le> k"
  then have "0 < k" by (cases xs) auto
  with a show ?thesis
    by (subst chunks_then.simps) (simp add: chunks_then.simps [of k sep "[]"])
qed

lemma send_single_part_all:
  assumes "never_fails (f_reads f)" and "never_fails (peer c)" and "0 < chunked_size srv"
    and "f_pos f + n \<le> length (f_data f)"
  shows "\<exists>f' c'. send_single_part srv f c resp n more' = (True, f', c', resp)
           \<and> sent c' = sent c @ chunks_then (chunked_size srv) more'
                                  (take n (drop (f_pos f) (f_data f)))
           \<and> f_seeks f' = f_seeks f \<and> f_data f' = f_data f \<and> f_pos f' = f_pos f + n
           \<and> never_fails (f_reads f') \<and> never_fails (peer c')"
  using assms
proof (induction n arbitrary: f c rule: less_induct)
  case (less n)
  let ?k = "chunked_size srv"
  show ?case
  proof (cases "n = 0")
    case True
    then show ?thesis using less.prems
      by (simp add: send_single_part.simps [of srv f c resp 0 more'] chunks_then.simps)
  next
    case False
    define r where "r = min n ?k"
    have r: "0 < r" "r \<le> n" using False less.prems(3) by (simp_all add: r_def)
    define got where "got = take r (drop (f_pos f) (f_data f))"
    have lgot: "length got = r" using r less.prems(4) by (simp add: got_def)
    define f1 where "f1 = f\<lparr>f_pos := f_pos f + r, f_eof := f_eof f, f_reads := tl (f_reads f)\<rparr>"
    have rd: "async_read f r = (Some got, f1)"
      using less.prems(1) lgot
      by (simp add: async_read_def never_fails_next Let_def got_def [symmetric] f1_def)
    define c1 where "c1 = c\<lparr>calls := calls c @ [(if more' = [] then Write_data got else Async_write [got, more'], True)], peer := tl (peer c)\<rparr>"
    have wr: "(if more' = [] then conn_call c (Write_data got) else conn_call c (Async_write [got, more'])) = (True, c1)"
      using less.prems(2) by (simp add: conn_call_ok c1_def)
    have sent1: "sent c1 = sent c @ got @ more'"
      by (simp add: c1_def sent_snoc)
    have step: "send_single_part srv f c resp n more' = send_single_part srv f1 c1 resp (n - r) more'"
      using r rd wr
      by (subst send_single_part.simps) (simp add: r_def [symmetric] Let_def)
    have "n - r < n" using r by simp
    moreover have "never_fails (f_reads f1)" using less.prems(1) by (simp add: f1_def never_fails_tl)
    moreover have "never_fails (peer c1)" using less.prems(2) by (simp add: c1_def never_fails_tl)
    moreover have "f_pos f1 + (n - r) \<le> length (f_data f1)" using less.prems(4) r by (simp add: f1_def)
    ultimately obtain f' c' where
      rec: "send_single_part srv f1 c1 resp (n - r) more' = (True, f', c', resp)"
      and s': "sent c' = sent c1 @ chunks_then ?k more' (take (n - r) (drop (f_pos f1) (f_data f1)))"
      and rest: "f_seeks f' = f_seeks f1" "f_data f' = f_data f1" "f_pos f' = f_pos f1 + (n - r)"
                "never_fails (f_reads f')" "never_fails (peer c')"
      using less.IH [of "n - r" f1 c1] less.prems(3) by blast
    let ?xs = "take n (drop (f_pos f) (f_data f))"
    have xs_ne: "?xs \<noteq> []" using False less.prems(4) by auto
    have tk: "take ?k ?xs = got" by (simp add: got_def r_def min.commute)
    have dr: "drop ?k ?xs = take (n - r) (drop (f_pos f1) (f_data f1))"
    proof (cases "?k \<le> n")
      case True
      then have "r = ?k" by (simp add: r_def)
      then show ?thesis by (simp add: f1_def drop_take add.commute)
    next
      case False
      then have "r = n" by (simp add: r_def)
      with False show ?thesis by simp
    qed
    have "chunks_then ?k more' ?xs = got @ more' @ chunks_then ?k more' (take (n - r) (drop (f_pos f1) (f_data f1)))"
      using xs_ne less.prems(3) tk dr by (subst chunks_then.simps) simp
    with step rec s' sent1 rest r show ?thesis
      by (simp add: f1_def)
  qed
qed

subsection \<open>A single range\<close>

lemma size_t_diff:
  assumes "a \<le> b" and "b < n" and "n < 2 ^ 64"
  shows "size_t (int b + 1 - int a) = b + 1 - a"
proof -
  have "int b + 1 - int a = int (b + 1 - a)" using assms by simp
  moreover have "int (b + 1 - a) < 2 ^ 64"
  proof -
    have "b + 1 - a < 2 ^ 64" using assms by simp
    then have "int (b + 1 - a) < int (2 ^ 64)" by (simp only: of_nat_less_iff)
    then show ?thesis by simp
  qed
  ultimately show ?thesis by (simp add: size_t_def)
qed

lemma find_char_nonempty: "find_char c s = Some i \<Longrightarrow> s \<noteq> []"
  by (cases s) auto

lemma send_single_part_plain_calls:
  assumes "never_fails (f_reads f)" and "never_fails (peer c)" and "0 < chunked_size srv"
    and "f_pos f + n \<le> length (f_data f)"
  shows "\<exists>f' c' ws. send_single_part srv f c resp n [] = (True, f', c', resp)
           \<and> calls c' = calls c @ ws
           \<and> (\<forall>w \<in> set ws. \<exists>x. w = (Write_data x, True))"
  using assms
proof (induction n arbitrary: f c rule: less_induct)
  case (less n)
  let ?k = "chunked_size srv"
  show ?case
  proof (cases "n = 0")
    case True
    then have "send_single_part srv f c resp n [] = (True, f, c, resp)"
      by (simp add: send_single_part.simps [of srv f c resp 0 "[]"])
    then show ?thesis by simp
  next
    case False
    define r where "r = min n ?k"
    have r: "0 < r" "r \<le> n" using False less.prems(3) by (simp_all add: r_def)
    define got where "got = take r (drop (f_pos f) (f_data f))"
    have lgot: "length got = r" using r less.prems(4) by (simp add: got_def)
    define f1 where "f1 = f\<lparr>f_pos := f_pos f + r, f_eof := f_eof f, f_reads := tl (f_reads f)\<rparr>"
    have rd: "async_read f r = (Some got, f1)"
      using less.prems(1) lgot
      by (simp add: async_read_def never_fails_next Let_def got_def [symmetric] f1_def)
    define c1 where "c1 = c\<lparr>calls := calls c @ [(Write_data got, True)], peer := tl (peer c)\<rparr>"
    have wr: "conn_call c (Write_data got) = (True, c1)"
      using less.prems(2) by (simp add: conn_call_ok c1_def)
    have step: "send_single_part srv f c resp n [] = send_single_part srv f1 c1 resp (n - r) []"
      using r rd wr
      by (subst send_single_part.simps) (simp add: r_def [symmetric] Let_def)
    have p1: "n - r < n" using r by simp
    have p2: "never_fails (f_reads f1)"
      using less.prems(1) by (simp add: f1_def never_fails_tl)
    have p3: "never_fails (peer c1)"
      using less.prems(2) by (simp add: c1_def never_fails_tl)
    have p4: "f_pos f1 + (n - r) \<le> length (f_data f1)"
      using less.prems(4) r by (simp add: f1_def)
    have "\<exists>f' c' ws. send_single_part srv f1 c1 resp (n - r) [] = (True, f', c', resp)
           \<and> calls c' = calls c1 @ ws
           \<and> (\<forall>w \<in> set ws. \<exists>x. w = (Write_data x, True))"
      using p1 p2 p3 less.prems(3) p4 by (rule less.IH)
    then obtain f' c' ws where
      rec: "send_single_part srv f1 c1 resp (n - r) [] = (True, f', c', resp)"
      and cs: "calls c' = calls c1 @ ws"
      and ws: "\<forall>w \<in> set ws. \<exists>x. w = (Write_data x, True)"
      by (elim exE conjE)
    have a1: "send_single_part srv f c resp n [] = (True, f', c', resp)"
      using step rec by simp
    have a2: "calls c' = calls c @ ((Write_data got, True) # ws)"
      using cs by (simp add: c1_def)
    have a3: "\<forall>w \<in> set ((Write_data got, True) # ws). \<exists>x. w = (Write_data x, True)"
      using ws by simp
    from a1 a2 a3 show ?thesis by (intro exI conjI)
  qed
qed

lemma serve_single_range_ok:
  assumes "a \<le> b" and "b < length (f_data f)" and "length (f_data f) < 2 ^ 64"
    and "0 < chunked_size srv"
    and "never_fails (f_reads f)" and "never_fails (peer conn)"
  shows "\<exists>conn' f' ws.
           serve_single_range srv mime file_name fsize (a, b) f resp conn
             = (resp\<lparr>delay := True\<rparr>, conn', Some f')
           \<and> f_seeks f' = f_seeks f @ [a]
           \<and> calls conn' =
               calls conn
               @ (Write_data
                    (''HTTP/1.1 '' @ (if b + 1 - a = fsize then ''200'' else ''206'') @ '' OK'' @ CRCF
                  @ ''Access-Control-Allow-origin: *'' @ CRCF
                  @ ''Accept-Ranges: bytes'' @ CRCF
                  @ ''Content-Range: bytes '' @ to_string a @ ''-'' @ to_string b @ ''/''
                  @ to_string fsize @ CRCF
                  @ ''Content-Disposition: attachment;filename='' @ file_name @ CRCF
                  @ ''Connection: keep-alive'' @ CRCF
                  @ ''Content-Type: '' @ mime @ CRCF
                  @ ''Content-Length: '' @ to_string (b + 1 - a) @ CRCF @ CRCF),
                  True) # ws
           \<and> (\<forall>w \<in> set ws. \<exists>x. w = (Write_data x, True))
           \<and> concat (map op_bytes ws) = take (b + 1 - a) (drop a (f_data f))"
proof -
  let ?n = "b + 1 - a"
  let ?hdr = "build_range_header mime file_name (to_string ?n)
                (if ?n = fsize then 200 else 206)
                (''Content-Range: bytes '' @ to_string a @ ''-'' @ to_string b @ ''/''
                 @ to_string fsize @ CRCF)"
  let ?f1 = "seek a f"
  let ?c1 = "conn\<lparr>calls := calls conn @ [(Write_data ?hdr, True)], peer := tl (peer conn)\<rparr>"
  let ?r1 = "resp\<lparr>delay := True\<rparr>"
  have hd: "?hdr = ''HTTP/1.1 '' @ (if b + 1 - a = fsize then ''200'' else ''206'') @ '' OK'' @ CRCF
                  @ ''Access-Control-Allow-origin: *'' @ CRCF
                  @ ''Accept-Ranges: bytes'' @ CRCF
                  @ ''Content-Range: bytes '' @ to_string a @ ''-'' @ to_string b @ ''/''
                  @ to_string fsize @ CRCF
                  @ ''Content-Disposition: attachment;filename='' @ file_name @ CRCF
                  @ ''Connection: keep-alive'' @ CRCF
                  @ ''Content-Type: '' @ mime @ CRCF
                  @ ''Content-Length: '' @ to_string (b + 1 - a) @ CRCF @ CRCF"
    by (simp add: build_range_header_def to_string_200 to_string_206)
  have ps: "size_t (int b + 1 - int a) = ?n"
    using assms(1-3) by (rule size_t_diff)
  have wr: "conn_call conn (Write_data ?hdr) = (True, ?c1)"
    using assms(6) by (rule conn_call_ok)
  have pre: "never_fails (f_reads ?f1)" "never_fails (peer ?c1)"
    "f_pos ?f1 + ?n \<le> length (f_data ?f1)"
    using assms(1,2,5,6) by (simp_all add: seek_def never_fails_tl)
  from send_single_part_all [OF pre(1,2) assms(4) pre(3), of ?r1 "[]"] obtain f' c' where
    ssp: "send_single_part srv ?f1 ?c1 ?r1 ?n [] = (True, f', c', ?r1)"
    and s': "sent c' = sent ?c1 @ chunks_then (chunked_size srv) []
                                    (take ?n (drop (f_pos ?f1) (f_data ?f1)))"
    and sk: "f_seeks f' = f_seeks ?f1"
    by (elim exE conjE)
  from send_single_part_plain_calls [OF pre(1,2) assms(4) pre(3), of ?r1] obtain f2 c2 ws where
    e2: "send_single_part srv ?f1 ?c1 ?r1 ?n [] = (True, f2, c2, ?r1)"
    and cs2: "calls c2 = calls ?c1 @ ws"
    and ws: "\<forall>w \<in> set ws. \<exists>x. w = (Write_data x, True)"
    by (elim exE conjE)
  from ssp e2 have "c2 = c'" by simp
  with cs2 have cs: "calls c' = calls ?c1 @ ws" by simp
  have b1: "serve_single_range srv mime file_name fsize (a, b) f resp conn
              = (?r1, c', Some f')"
    using ps wr ssp by (simp add: serve_single_range_def set_delay_def Let_def)
  have b2: "f_seeks f' = f_seeks f @ [a]" using sk by (simp add: seek_def)
  have "calls c' = calls conn @ (Write_data ?hdr, True) # ws" using cs by simp
  then have b3: "calls c' =
               calls conn
               @ (Write_data
                    (''HTTP/1.1 '' @ (if b + 1 - a = fsize then ''200'' else ''206'') @ '' OK'' @ CRCF
                  @ ''Access-Control-Allow-origin: *'' @ CRCF
                  @ ''Accept-Ranges: bytes'' @ CRCF
                  @ ''Content-Range: bytes '' @ to_string a @ ''-'' @ to_string b @ ''/''
                  @ to_string fsize @ CRCF
                  @ ''Content-Disposition: attachment;filename='' @ file_name @ CRCF
                  @ ''Connection: keep-alive'' @ CRCF
                  @ ''Content-Type: '' @ mime @ CRCF
                  @ ''Content-Length: '' @ to_string (b + 1 - a) @ CRCF @ CRCF),
                  True) # ws"
    by (simp only: hd)
  have b4: "concat (map op_bytes ws) = take ?n (drop a (f_data f))"
  proof -
    from cs have "sent c' = sent ?c1 @ concat (map op_bytes ws)" by (simp add: sent_def)
    with s' assms(4) show ?thesis by (simp add: chunks_then_no_sep seek_def)
  qed
  from b1 b2 b3 ws b4 show ?thesis by (intro exI conjI)
qed

text \<open>
  C3, as the code behaves. The file is not cached and has contents \<open>d\<close>, the \<open>Range\<close>
  value has an \<open>=\<close> and what follows it parses to the one range \<open>[a, b]\<close> with
  \<open>a \<le> b < length d\<close>. When the chunk size is positive and no read and no write fails,
  the handler seeks to \<open>a\<close> (once, and nowhere else) and its calls on the connection are
  one write of the header, whose bytes are given here in full, with status 200 if
  \<open>b + 1 - a\<close> is the size of the file and 206 otherwise, with
  \<open>Content-Range: bytes a-b/size\<close> and with \<open>Content-Length\<close> \<open>b + 1 - a\<close>, and then data
  writes only, which together carry exactly the bytes \<open>a\<close> to \<open>b\<close> of the file.
\<close>

theorem single_range_response:
  assumes "static_file_cache srv file_name = None"
    and "disk E file_name = Some d" and "length d < 2 ^ 64"
    and "find_char (CHR ''='') (get_header_value req ''Range'') = Some pos"
    and "parse_ranges E (drop (pos + 1) (get_header_value req ''Range'')) (length d)
           = ([(a, b)], True)"
    and "a \<le> b" and "b < length d"
    and "0 < chunked_size srv"
    and "never_fails (read_outcomes E)" and "never_fails (peer conn)"
  shows "\<exists>conn' f' ws.
           static_file_handler E srv file_name req resp conn
             = Some (Inr (resp\<lparr>delay := True\<rparr>, conn', Some f'))
           \<and> f_seeks f' = [a]
           \<and> calls conn' =
               calls conn
               @ (Write_data
                    (''HTTP/1.1 '' @ (if b + 1 - a = length d then ''200'' else ''206'') @ '' OK'' @ CRCF
                  @ ''Access-Control-Allow-origin: *'' @ CRCF
                  @ ''Accept-Ranges: bytes'' @ CRCF
                  @ ''Content-Range: bytes '' @ to_string a @ ''-'' @ to_string b @ ''/''
                  @ to_string (length d) @ CRCF
                  @ ''Content-Disposition: attachment;filename='' @ file_name @ CRCF
                  @ ''Connection: keep-alive'' @ CRCF
                  @ ''Content-Type: '' @ get_mime_type E (get_extension E file_name) @ CRCF
                  @ ''Content-Length: '' @ to_string (b + 1 - a) @ CRCF @ CRCF),
                  True) # ws
           \<and> (\<forall>w \<in> set ws. \<exists>x. w = (Write_data x, True))
           \<and> concat (map op_bytes ws) = take (b + 1 - a) (drop a d)"
proof -
  let ?f = "\<lparr>f_data = d, f_pos = 0, f_eof = False, f_seeks = [], f_reads = read_outcomes E\<rparr>"
  let ?mime = "get_mime_type E (get_extension E file_name)"
  have op: "async_open E file_name = Some ?f"
    using assms(2) by (simp add: async_open_def)
  have sz: "fs_file_size E file_name = Some (length d)"
    using assms(2) by (simp add: fs_file_size_def)
  have ne: "get_header_value req ''Range'' \<noteq> []"
    using assms(4) by (rule find_char_nonempty)
  have sr: "serve_ranges E srv ?mime file_name (length d) (get_header_value req ''Range'') pos
              ?f resp conn
            = Inr (serve_single_range srv ?mime file_name (length d) (a, b) ?f resp conn)"
    using assms(5) by (simp add: serve_ranges_def)
  have h: "static_file_handler E srv file_name req resp conn
           = Some (Inr (serve_single_range srv ?mime file_name (length d) (a, b) ?f resp conn))"
    using assms(1,4) op sz ne sr by (simp add: static_file_handler_def Let_def)
  have pre: "b < length (f_data ?f)" "length (f_data ?f) < 2 ^ 64" "never_fails (f_reads ?f)"
    using assms(3,7,9) by simp_all
  from serve_single_range_ok [OF assms(6) pre(1,2) assms(8) pre(3) assms(10),
         of ?mime file_name "length d" resp] h
  show ?thesis by simp
qed

theorem single_range_response_witness:
  "find_char (CHR ''='') (get_header_value (get_with_range ''bytes=2-5'') ''Range'') = Some 5
   \<and> parse_ranges sample_env ''2-5'' 10 = ([(2, 5)], True)
   \<and> 0 < chunked_size (server_with_pool 8080)
   \<and> static_file_handler sample_env (server_with_pool 8080) ''www/a.txt''
        (get_with_range ''bytes=2-5'') sample_response fresh_connection
      = Some (Inr (sample_response\<lparr>delay := True\<rparr>,
                   \<lparr>calls = [(Write_data
                                (''HTTP/1.1 206 OK'' @ CRCF
                  @ ''Access-Control-Allow-origin: *'' @ CRCF
                  @ ''Accept-Ranges: bytes'' @ CRCF
                  @ ''Content-Range: bytes 2-5/10'' @ CRCF
                  @ ''Content-Disposition: attachment;filename=www/a.txt'' @ CRCF
                  @ ''Connection: keep-alive'' @ CRCF
                  @ ''Content-Type: text/plain'' @ CRCF
                  @ ''Content-Length: 4'' @ CRCF @ CRCF),
                              True),
                             (Write_data ''2345'', True)],
                    peer = []\<rparr>,
                   Some \<lparr>f_data = ''0123456789'', f_pos = 6, f_eof = False, f_seeks = [2],
                         f_reads = []\<rparr>))"
proof -
  have h1: "static_file_cache (server_with_pool 8080) ''www/a.txt'' = None"
    by (simp add: sample_defs)
  have h2: "disk sample_env ''www/a.txt'' = Some ''0123456789''"
    by (simp add: sample_defs)
  have h3: "length ''0123456789'' < (2::nat) ^ 64" by simp
  have h4: "find_char (CHR ''='') (get_header_value (get_with_range ''bytes=2-5'') ''Range'')
              = Some 5"
    by (simp add: sample_defs)
  have h5: "parse_ranges sample_env
              (drop (5 + 1) (get_header_value (get_with_range ''bytes=2-5'') ''Range''))
              (length ''0123456789'') = ([(2, 5)], True)"
    by (simp add: sample_defs)
  have h6: "(2::nat) \<le> 5" "(5::nat) < length ''0123456789''" by simp_all
  have h7: "0 < chunked_size (server_with_pool 8080)" by (simp add: sample_defs)
  have h8: "never_fails (read_outcomes sample_env)" "never_fails (peer fresh_connection)"
    by (simp_all add: sample_defs never_fails_def)
  have p: "parse_ranges sample_env ''2-5'' 10 = ([(2, 5)], True)"
    by (simp add: sample_defs)
  have ev: "static_file_handler sample_env (server_with_pool 8080) ''www/a.txt''
        (get_with_range ''bytes=2-5'') sample_response fresh_connection
      = Some (Inr (sample_response\<lparr>delay := True\<rparr>,
                   \<lparr>calls = [(Write_data
                                (''HTTP/1.1 206 OK'' @ CRCF
                  @ ''Access-Control-Allow-origin: *'' @ CRCF
                  @ ''Accept-Ranges: bytes'' @ CRCF
                  @ ''Content-Range: bytes 2-5/10'' @ CRCF
                  @ ''Content-Disposition: attachment;filename=www/a.txt'' @ CRCF
                  @ ''Connection: keep-alive'' @ CRCF
                  @ ''Content-Type: text/plain'' @ CRCF
                  @ ''Content-Length: 4'' @ CRCF @ CRCF),
                              True),
                             (Write_data ''2345'', True)],
                    peer = []\<rparr>,
                   Some \<lparr>f_data = ''0123456789'', f_pos = 6, f_eof = False, f_seeks = [2],
                         f_reads = []\<rparr>))"
    by (simp add: handler_eval sample_defs send_single_part.simps build_range_header_def
          to_string_206 to_string_digits to_string_ten)
  from single_range_response [OF h1 h2 h3 h4 h5 h6 h7 h8, of sample_response] h4 p h7 ev
  show ?thesis by simp
qed

text \<open>
  The claim C3 as it is written, for every such request, fails in two ways. When the
  first read of the file fails, the header (206, four bytes announced) is followed by a
  reply with status 204 and no byte of the range. When the chunk size is set to 0, the
  header is written and the loop of \<open>send_single_part\<close> ends at once: no byte of the
  range is streamed.
\<close>

theorem single_range_not_streamed:
  "static_file_handler (sample_env\<lparr>read_outcomes := [False]\<rparr>) (server_with_pool 8080)
     ''www/a.txt'' (get_with_range ''bytes=2-5'') sample_response fresh_connection
   = Some (Inr (sample_response\<lparr>delay := True, status := 204\<rparr>,
                \<lparr>calls = [(Write_data
                             (''HTTP/1.1 206 OK'' @ CRCF
                  @ ''Access-Control-Allow-origin: *'' @ CRCF
                  @ ''Accept-Ranges: bytes'' @ CRCF
                  @ ''Content-Range: bytes 2-5/10'' @ CRCF
                  @ ''Content-Disposition: attachment;filename=www/a.txt'' @ CRCF
                  @ ''Connection: keep-alive'' @ CRCF
                  @ ''Content-Type: text/plain'' @ CRCF
                  @ ''Content-Length: 4'' @ CRCF @ CRCF),
                           True),
                          (Reply (sample_response\<lparr>delay := True, status := 204\<rparr>), True)],
                 peer = []\<rparr>,
                Some \<lparr>f_data = ''0123456789'', f_pos = 2, f_eof = False, f_seeks = [2],
                      f_reads = []\<rparr>))
   \<and> static_file_handler sample_env (set_transfer_chunked_size 0 (server_with_pool 8080))
       ''www/a.txt'' (get_with_range ''bytes=2-5'') sample_response fresh_connection
     = Some (Inr (sample_response\<lparr>delay := True\<rparr>,
                  \<lparr>calls = [(Write_data
                               (''HTTP/1.1 206 OK'' @ CRCF
                  @ ''Access-Control-Allow-origin: *'' @ CRCF
                  @ ''Accept-Ranges: bytes'' @ CRCF
                  @ ''Content-Range: bytes 2-5/10'' @ CRCF
                  @ ''Content-Disposition: attachment;filename=www/a.txt'' @ CRCF
                  @ ''Connection: keep-alive'' @ CRCF
                  @ ''Content-Type: text/plain'' @ CRCF
                  @ ''Content-Length: 4'' @ CRCF @ CRCF),
                             True)],
                   peer = []\<rparr>,
                  Some \<lparr>f_data = ''0123456789'', f_pos = 2, f_eof = False, f_seeks = [2],
                        f_reads = []\<rparr>))"
  by (simp add: handler_eval sample_defs send_single_part.simps build_range_header_def
        to_string_206 to_string_digits to_string_ten no_content_def)

subsection \<open>Chunked transfer\<close>

lemma chunked_loop_ends:
  assumes "never_fails (f_reads f)" and "never_fails (peer c)" and "0 < n"
  shows "\<exists>f' c' ws. chunked_loop n f c resp = Some (f', c', resp)
           \<and> calls c' = calls c @ ws @ [(End_chunked, True)]
           \<and> (\<forall>w \<in> set ws. \<exists>b. w = (Write_chunked b, True))"
  using assms
proof (induction "length (f_data f) - f_pos f" arbitrary: f c rule: less_induct)
  case less
  define got where "got = take n (drop (f_pos f) (f_data f))"
  define f1 where "f1 = f\<lparr>f_pos := f_pos f + length got,
                           f_eof := (f_eof f \<or> length got < n),
                           f_reads := tl (f_reads f)\<rparr>"
  define c1 where "c1 = c\<lparr>calls := calls c @ [(Write_chunked got, True)], peer := tl (peer c)\<rparr>"
  have rd: "async_read f n = (Some got, f1)"
    using less.prems(1)
    by (simp add: async_read_def never_fails_next Let_def got_def [symmetric] f1_def)
  have wr: "conn_call c (Write_chunked got) = (True, c1)"
    using less.prems(2) by (simp add: conn_call_ok c1_def)
  have nf1: "never_fails (f_reads f1)" using less.prems(1) by (simp add: f1_def never_fails_tl)
  have nc1: "never_fails (peer c1)" using less.prems(2) by (simp add: c1_def never_fails_tl)
  show ?case
  proof (cases "f_eof f1")
    case True
    define c2 where "c2 = c1\<lparr>calls := calls c1 @ [(End_chunked, True)], peer := tl (peer c1)\<rparr>"
    have "conn_call c1 End_chunked = (True, c2)"
      using nc1 by (simp add: conn_call_ok c2_def)
    with rd wr True have "chunked_loop n f c resp = Some (f1, c2, resp)"
      by (subst chunked_loop.simps) simp
    moreover have "calls c2 = calls c @ [(Write_chunked got, True)] @ [(End_chunked, True)]"
      by (simp add: c2_def c1_def)
    ultimately show ?thesis by fastforce
  next
    case False
    moreover have "length got \<le> n" by (simp add: got_def)
    ultimately have full: "length got = n" by (simp add: f1_def)
    then have "n \<le> length (f_data f) - f_pos f" by (simp add: got_def)
    with full less.prems(3) have "length (f_data f1) - f_pos f1 < length (f_data f) - f_pos f"
      by (simp add: f1_def)
    from less.hyps [OF this nf1 nc1 less.prems(3)] obtain f' c' ws where
      rec: "chunked_loop n f1 c1 resp = Some (f', c', resp)"
      and cs: "calls c' = calls c1 @ ws @ [(End_chunked, True)]"
      and ws: "\<forall>w \<in> set ws. \<exists>b. w = (Write_chunked b, True)"
      by blast
    from rd wr False rec have "chunked_loop n f c resp = Some (f', c', resp)"
      by (subst chunked_loop.simps) simp
    moreover from cs have "calls c' = calls c @ ((Write_chunked got, True) # ws) @ [(End_chunked, True)]"
      by (simp add: c1_def)
    moreover from ws have "\<forall>w \<in> set ((Write_chunked got, True) # ws). \<exists>b. w = (Write_chunked b, True)"
      by simp
    ultimately show ?thesis by blast
  qed
qed

text \<open>
  C8, as the code behaves. For a file that is not cached, served in chunked format (the
  format is \<open>chunked\<close> and the request has no \<open>Range\<close>), with a positive chunk size:
  when no read and no write fails, the handler returns, and its calls on the connection
  are \<open>begin_chunked\<close>, then chunk writes only, then \<open>end_chunked\<close>, the terminating
  zero-length chunk, as the last call.
\<close>

theorem chunked_response_terminated:
  assumes "static_file_cache srv file_name = None"
    and "disk E file_name = Some d"
    and "format_type srv = Resp_chunked"
    and "get_header_value req ''Range'' = []"
    and "0 < chunked_size srv"
    and "never_fails (read_outcomes E)" and "never_fails (peer conn)"
  shows "\<exists>f' conn' ws.
           static_file_handler E srv file_name req resp conn
             = Some (Inr (resp\<lparr>fmt_type := Chunked\<rparr>, conn', Some f'))
           \<and> calls conn' = calls conn @ (Begin_chunked, True) # ws @ [(End_chunked, True)]
           \<and> (\<forall>w \<in> set ws. \<exists>b. w = (Write_chunked b, True))"
proof -
  let ?f = "\<lparr>f_data = d, f_pos = 0, f_eof = False, f_seeks = [], f_reads = read_outcomes E\<rparr>"
  let ?c1 = "conn\<lparr>calls := calls conn @ [(Begin_chunked, True)], peer := tl (peer conn)\<rparr>"
  let ?r1 = "resp\<lparr>fmt_type := Chunked\<rparr>"
  have op: "async_open E file_name = Some ?f"
    using assms(2) by (simp add: async_open_def)
  have sz: "fs_file_size E file_name = Some (length d)"
    using assms(2) by (simp add: fs_file_size_def)
  have bc: "conn_call conn Begin_chunked = (True, ?c1)"
    using assms(7) by (rule conn_call_ok)
  have "never_fails (f_reads ?f)" using assms(6) by simp
  moreover have "never_fails (peer ?c1)" using assms(7) by (simp add: never_fails_tl)
  ultimately obtain f' c' ws where
    lp: "chunked_loop (chunked_size srv) ?f ?c1 ?r1 = Some (f', c', ?r1)"
    and cs: "calls c' = calls ?c1 @ ws @ [(End_chunked, True)]"
    and ws: "\<forall>w \<in> set ws. \<exists>b. w = (Write_chunked b, True)"
    using chunked_loop_ends [of ?f ?c1 "chunked_size srv" ?r1] assms(5) by blast
  have "serve_chunked srv ?f resp conn = Some (?r1, c', Some f')"
    using bc lp by (simp add: serve_chunked_def set_format_type_def)
  with assms(1,3,4) op sz
  have "static_file_handler E srv file_name req resp conn = Some (Inr (?r1, c', Some f'))"
    by (simp add: static_file_handler_def Let_def)
  moreover from cs have "calls c' = calls conn @ (Begin_chunked, True) # ws @ [(End_chunked, True)]"
    by simp
  ultimately show ?thesis using ws by blast
qed

theorem chunked_response_terminated_witness:
  "format_type (server_with_pool 8080) = Resp_chunked
   \<and> get_header_value plain_get ''Range'' = []
   \<and> static_file_handler sample_env (server_with_pool 8080) ''www/a.txt'' plain_get
        sample_response fresh_connection
      = Some (Inr (sample_response\<lparr>fmt_type := Chunked\<rparr>,
                   \<lparr>calls = [(Begin_chunked, True), (Write_chunked ''0123456789'', True),
                             (End_chunked, True)],
                    peer = []\<rparr>,
                   Some \<lparr>f_data = ''0123456789'', f_pos = 10, f_eof = True, f_seeks = [],
                         f_reads = []\<rparr>))"
proof -
  have h1: "static_file_cache (server_with_pool 8080) ''www/a.txt'' = None"
    by (simp add: sample_defs)
  have h2: "disk sample_env ''www/a.txt'' = Some ''0123456789''"
    by (simp add: sample_defs)
  have h3: "format_type (server_with_pool 8080) = Resp_chunked" by (simp add: sample_defs)
  have h4: "get_header_value plain_get ''Range'' = []" by (simp add: sample_defs)
  have h5: "0 < chunked_size (server_with_pool 8080)" by (simp add: sample_defs)
  have h6: "never_fails (read_outcomes sample_env)" "never_fails (peer fresh_connection)"
    by (simp_all add: sample_defs never_fails_def)
  have ev: "static_file_handler sample_env (server_with_pool 8080) ''www/a.txt'' plain_get
        sample_response fresh_connection
      = Some (Inr (sample_response\<lparr>fmt_type := Chunked\<rparr>,
                   \<lparr>calls = [(Begin_chunked, True), (Write_chunked ''0123456789'', True),
                             (End_chunked, True)],
                    peer = []\<rparr>,
                   Some \<lparr>f_data = ''0123456789'', f_pos = 10, f_eof = True, f_seeks = [],
                         f_reads = []\<rparr>))"
    by (simp add: handler_eval sample_defs chunked_loop.simps)
  from chunked_response_terminated [OF h1 h2 h3 h4 h5 h6, of sample_response] h3 h4 ev
  show ?thesis by simp
qed

text \<open>
  The claim C8 as it is written, for every chunked response, fails when a read of the
  file fails: after \<open>begin_chunked\<close> the handler sets status 204, replies and returns;
  \<open>end_chunked\<close> is never called.
\<close>

theorem chunked_read_error_not_terminated:
  "static_file_handler (sample_env\<lparr>read_outcomes := [False]\<rparr>) (server_with_pool 8080)
     ''www/a.txt'' plain_get sample_response fresh_connection
   = Some (Inr (sample_response\<lparr>fmt_type := Chunked, status := 204\<rparr>,
                \<lparr>calls = [(Begin_chunked, True),
                          (Reply (sample_response\<lparr>fmt_type := Chunked, status := 204\<rparr>), True)],
                 peer = []\<rparr>,
                Some \<lparr>f_data = ''0123456789'', f_pos = 0, f_eof = False, f_seeks = [],
                      f_reads = []\<rparr>))"
  by (simp add: handler_eval sample_defs chunked_loop.simps no_content_def)

subsection \<open>Multipart ranges\<close>

lemma part_heads_loop_heads:
  "fst (part_heads_loop B mime fs rs (hs, cl)) = hs @ map (part_head B mime fs) rs"
  by (induction rs arbitrary: hs cl) (auto simp: Let_def)

lemma build_part_heads_heads:
  "fst (build_part_heads B ranges mime fs cl) = map (part_head B mime fs) ranges"
  using part_heads_loop_heads [of B mime fs ranges "[]" cl]
  by (auto simp: build_part_heads_def Let_def split: prod.splits)

lemma multipart_loop_streams:
  assumes "never_fails (f_reads f)" and "never_fails (peer c)" and "0 < chunked_size srv"
    and "\<forall>r \<in> set ranges. fst r \<le> snd r \<and> snd r < length (f_data f)"
    and "length (f_data f) < 2 ^ 64"
  shows "\<exists>f' c'. multipart_loop E srv ranges heads i f c resp = (f', c', resp)
           \<and> sent c' = sent c @ streamed_parts (chunked_size srv) E ranges heads (f_data f) i
           \<and> f_seeks f' = f_seeks f @ map fst (drop i ranges)"
  using assms
proof (induction "length ranges - i" arbitrary: i f c rule: less_induct)
  case less
  let ?k = "chunked_size srv"
  show ?case
  proof (cases "i < length ranges")
    case False
    then have "multipart_loop E srv ranges heads i f c resp = (f, c, resp)"
      by (subst multipart_loop.simps) simp
    with False show ?thesis by (simp add: streamed_parts_def)
  next
    case True
    obtain a b where ab: "ranges ! i = (a, b)" by (cases "ranges ! i")
    from True have "ranges ! i \<in> set ranges" by simp
    with less.prems(4) ab have v: "a \<le> b" "b < length (f_data f)" by auto
    let ?n = "b + 1 - a"
    let ?sep = "part_delim E (length ranges) i"
    define c1 where "c1 = c\<lparr>calls := calls c @ [(Write_data (heads ! i), True)],
                            peer := tl (peer c)\<rparr>"
    define f1 where "f1 = seek a f"
    have wr: "conn_call c (Write_data (heads ! i)) = (True, c1)"
      using less.prems(2) by (simp add: conn_call_ok c1_def)
    have ps: "size_t (int b + 1 - int a) = ?n"
      using v less.prems(5) by (rule size_t_diff)
    have "never_fails (f_reads f1)" using less.prems(1) by (simp add: f1_def seek_def)
    moreover have "never_fails (peer c1)" using less.prems(2) by (simp add: c1_def never_fails_tl)
    moreover have "f_pos f1 + ?n \<le> length (f_data f1)" using v by (simp add: f1_def seek_def)
    ultimately obtain f2 c2 where
      ssp: "send_single_part srv f1 c1 resp ?n ?sep = (True, f2, c2, resp)"
      and s2: "sent c2 = sent c1 @ chunks_then ?k ?sep (take ?n (drop (f_pos f1) (f_data f1)))"
      and f2: "f_seeks f2 = f_seeks f1" "f_data f2 = f_data f1"
      and nf2: "never_fails (f_reads f2)" "never_fails (peer c2)"
      using send_single_part_all [of f1 c1 srv ?n resp ?sep] less.prems(3) by blast
    have step: "multipart_loop E srv ranges heads i f c resp
                = multipart_loop E srv ranges heads (i + 1) f2 c2 resp"
      using True wr ab ps ssp
      by (subst multipart_loop.simps)
         (simp add: Let_def part_delim_def f1_def [symmetric])
    have d2: "f_data f2 = f_data f" using f2 by (simp add: f1_def seek_def)
    have "length ranges - (i + 1) < length ranges - i" using True by simp
    moreover have "\<forall>r \<in> set ranges. fst r \<le> snd r \<and> snd r < length (f_data f2)"
      using less.prems(4) d2 by simp
    moreover have "length (f_data f2) < 2 ^ 64" using less.prems(5) d2 by simp
    ultimately obtain f' c' where
      rec: "multipart_loop E srv ranges heads (i + 1) f2 c2 resp = (f', c', resp)"
      and s': "sent c' = sent c2 @ streamed_parts ?k E ranges heads (f_data f2) (i + 1)"
      and sk: "f_seeks f' = f_seeks f2 @ map fst (drop (i + 1) ranges)"
      using less.hyps [of "i + 1" f2 c2] nf2 less.prems(3) by blast
    have sp: "streamed_parts ?k E ranges heads (f_data f) i
              = heads ! i @ chunks_then ?k ?sep (take ?n (drop a (f_data f)))
                @ streamed_parts ?k E ranges heads (f_data f) (i + 1)"
      using True ab by (simp add: streamed_parts_def upt_conv_Cons range_bytes_def)
    have dr: "drop i ranges = (a, b) # drop (i + 1) ranges"
      using True ab by (simp add: Cons_nth_drop_Suc [symmetric])
    have "sent c' = sent c @ streamed_parts ?k E ranges heads (f_data f) i"
      using s' s2 sp d2 by (simp add: c1_def sent_snoc f1_def seek_def)
    moreover have "f_seeks f' = f_seeks f @ map fst (drop i ranges)"
      using sk f2 dr by (simp add: f1_def seek_def)
    ultimately show ?thesis using step rec by simp
  qed
qed

lemma multipart_response_streams:
  assumes "static_file_cache srv file_name = None"
    and "disk E file_name = Some d" and "length d < 2 ^ 64"
    and "find_char (CHR ''='') (get_header_value req ''Range'') = Some pos"
    and "parse_ranges E (drop (pos + 1) (get_header_value req ''Range'')) (length d)
           = (ranges, True)"
    and "2 \<le> length ranges"
    and "\<forall>r \<in> set ranges. fst r \<le> snd r \<and> snd r < length d"
    and "0 < chunked_size srv"
    and "never_fails (read_outcomes E)" and "never_fails (peer conn)"
  shows "\<exists>conn' f'.
           static_file_handler E srv file_name req resp conn
             = Some (Inr (resp\<lparr>delay := True\<rparr>, conn', Some f'))
           \<and> f_seeks f' = map fst ranges
           \<and> sent conn' =
               sent conn
               @ build_multiple_range_header (BOUNDARY E)
                   (snd (build_part_heads (BOUNDARY E) ranges
                           (get_mime_type E (get_extension E file_name))
                           (to_string (length d)) 0))
               @ streamed_parts (chunked_size srv) E ranges
                   (map (part_head (BOUNDARY E) (get_mime_type E (get_extension E file_name))
                           (to_string (length d))) ranges) d 0"
proof -
  let ?f = "\<lparr>f_data = d, f_pos = 0, f_eof = False, f_seeks = [], f_reads = read_outcomes E\<rparr>"
  let ?mime = "get_mime_type E (get_extension E file_name)"
  let ?bph = "build_part_heads (BOUNDARY E) ranges ?mime (to_string (length d)) 0"
  let ?heads = "map (part_head (BOUNDARY E) ?mime (to_string (length d))) ranges"
  let ?hdr = "build_multiple_range_header (BOUNDARY E) (snd ?bph)"
  let ?c1 = "conn\<lparr>calls := calls conn @ [(Write_data ?hdr, True)], peer := tl (peer conn)\<rparr>"
  let ?r1 = "resp\<lparr>delay := True\<rparr>"
  have op: "async_open E file_name = Some ?f"
    using assms(2) by (simp add: async_open_def)
  have sz: "fs_file_size E file_name = Some (length d)"
    using assms(2) by (simp add: fs_file_size_def)
  have ne: "get_header_value req ''Range'' \<noteq> []"
    using assms(4) by (rule find_char_nonempty)
  have rs: "ranges \<noteq> []" "length ranges \<noteq> 1" using assms(6) by auto
  have bph: "?bph = (?heads, snd ?bph)"
    using build_part_heads_heads [of "BOUNDARY E" ranges ?mime "to_string (length d)" 0]
    by (cases ?bph) simp
  have wr: "conn_call conn (Write_data ?hdr) = (True, ?c1)"
    using assms(10) by (rule conn_call_ok)
  have "never_fails (f_reads ?f)" using assms(9) by simp
  moreover have "never_fails (peer ?c1)" using assms(10) by (simp add: never_fails_tl)
  moreover have "\<forall>r \<in> set ranges. fst r \<le> snd r \<and> snd r < length (f_data ?f)"
    using assms(7) by simp
  moreover have "length (f_data ?f) < 2 ^ 64" using assms(3) by simp
  ultimately obtain f' c' where
    lp: "multipart_loop E srv ranges ?heads 0 ?f ?c1 ?r1 = (f', c', ?r1)"
    and s': "sent c' = sent ?c1 @ streamed_parts (chunked_size srv) E ranges ?heads (f_data ?f) 0"
    and sk: "f_seeks f' = f_seeks ?f @ map fst (drop 0 ranges)"
    using multipart_loop_streams [of ?f ?c1 srv ranges E ?heads 0 ?r1] assms(8) by blast
  have sm: "serve_multipart E srv ?mime (length d) ranges ?f resp conn = (?r1, c', Some f')"
    unfolding serve_multipart_def Let_def set_delay_def
    by (subst bph) (simp add: wr lp)
  have sr: "serve_ranges E srv ?mime file_name (length d) (get_header_value req ''Range'') pos
              ?f resp conn = Inr (?r1, c', Some f')"
    using assms(5) rs sm by (simp add: serve_ranges_def)
  have h: "static_file_handler E srv file_name req resp conn = Some (Inr (?r1, c', Some f'))"
    using assms(1,4) op sz ne sr by (simp add: static_file_handler_def Let_def)
  moreover have "f_seeks f' = map fst ranges" using sk by simp
  moreover have "sent c' = sent conn @ ?hdr
                   @ streamed_parts (chunked_size srv) E ranges ?heads d 0"
    using s' by (simp add: sent_snoc)
  ultimately show ?thesis by blast
qed

lemma size_t_nat: "n < 2 ^ 64 \<Longrightarrow> size_t (int n) = n"
proof -
  assume "n < 2 ^ 64"
  then have "int n < int (2 ^ 64)" by (simp only: of_nat_less_iff)
  then have "int n < 2 ^ 64" by simp
  then show ?thesis by (simp add: size_t_def)
qed

lemma part_cost_pair:
  "part_cost B mime fs (a, b) = length (part_head B mime fs (a, b)) + (b + 1 - a) + 2"
  by (simp add: part_cost_def)

lemma sum_list_const: "\<forall>x \<in> set xs. f x = (c::nat) \<Longrightarrow> sum_list (map f xs) = c * length xs"
  by (induction xs) simp_all

lemma map_over_indices: "map (\<lambda>j. g (xs ! j)) [0..<length xs] = map g xs"
  by (rule nth_equalityI) simp_all

lemma part_heads_loop_len:
  assumes "\<forall>r \<in> set rs. fst r \<le> snd r"
    and "cl + sum_list (map (part_cost B mime fs) rs) < 2 ^ 64"
  shows "snd (part_heads_loop B mime fs rs (hs, cl))
           = cl + sum_list (map (part_cost B mime fs) rs)"
  using assms
proof (induction rs arbitrary: hs cl)
  case Nil
  then show ?case by simp
next
  case (Cons r rs)
  obtain a b where r: "r = (a, b)" by (cases r)
  let ?ph = "part_head B mime fs (a, b)"
  from Cons.prems(1) r have ab: "a \<le> b" by simp
  from Cons.prems(2) r have bound: "cl + (length ?ph + (b + 1 - a) + 2)
                                     + sum_list (map (part_cost B mime fs) rs) < 2 ^ 64"
    by (simp add: part_cost_pair add.assoc)
  have c1: "size_t (int cl + int (length ?ph)) = cl + length ?ph"
  proof -
    have "cl + length ?ph < 2 ^ 64" using bound by simp
    from size_t_nat [OF this] show ?thesis by simp
  qed
  have ps: "size_t (int b + 1 - int a + int (length CRCF)) = b + 1 - a + 2"
  proof -
    have "b + 1 - a + 2 < 2 ^ 64" using bound by simp
    from size_t_nat [OF this] ab show ?thesis by (simp add: CRCF_def)
  qed
  have c2: "size_t (int (cl + length ?ph) + int (b + 1 - a + 2)) = cl + length ?ph + (b + 1 - a + 2)"
  proof -
    have lt: "cl + length ?ph + (b + 1 - a + 2) < 2 ^ 64" using bound by simp
    have "int (cl + length ?ph) + int (b + 1 - a + 2) = int (cl + length ?ph + (b + 1 - a + 2))"
      by simp
    with size_t_nat [OF lt] show ?thesis by (simp only:)
  qed
  have "snd (part_heads_loop B mime fs (r # rs) (hs, cl))
        = snd (part_heads_loop B mime fs rs (hs @ [?ph], cl + length ?ph + (b + 1 - a + 2)))"
    by (simp only: r part_heads_loop.simps Let_def c1 ps c2)
  also have "\<dots> = cl + length ?ph + (b + 1 - a + 2) + sum_list (map (part_cost B mime fs) rs)"
    using Cons.prems(1) bound by (intro Cons.IH) simp_all
  finally show ?case by (simp add: r part_cost_pair)
qed

lemma build_part_heads_len:
  assumes "\<forall>r \<in> set ranges. fst r \<le> snd r"
    and "sum_list (map (part_cost B mime fs) ranges) + length B + 4 < 2 ^ 64"
  shows "snd (build_part_heads B ranges mime fs 0)
           = sum_list (map (part_cost B mime fs) ranges) + length B + 4"
proof -
  have "0 + sum_list (map (part_cost B mime fs) ranges) < 2 ^ 64" using assms(2) by simp
  from part_heads_loop_len [OF assms(1) this, of "[]"]
  have l: "snd (part_heads_loop B mime fs ranges ([], 0))
           = sum_list (map (part_cost B mime fs) ranges)" by simp
  have "size_t (int (sum_list (map (part_cost B mime fs) ranges)) + int (length B + 4))
        = sum_list (map (part_cost B mime fs) ranges) + length B + 4"
    using size_t_nat [OF assms(2)] by (simp add: add.assoc)
  with l show ?thesis
    by (cases "part_heads_loop B mime fs ranges ([], 0)")
       (simp add: build_part_heads_def Let_def)
qed

lemma length_range_bytes:
  "fst r \<le> snd r \<Longrightarrow> snd r < length d \<Longrightarrow> length (range_bytes d r) = snd r + 1 - fst r"
  by (simp add: range_bytes_def)

lemma streamed_parts_fit:
  assumes "\<forall>r \<in> set ranges. fst r \<le> snd r \<and> snd r < length d \<and> snd r + 1 - fst r \<le> k"
  shows "streamed_parts k E ranges heads d 0 = framed_parts E ranges heads d"
proof -
  have "chunks_then k (part_delim E (length ranges) j) (range_bytes d (ranges ! j))
        = range_bytes d (ranges ! j) @ part_delim E (length ranges) j"
    if "j \<in> set [0..<length ranges]" for j
  proof -
    from that have "ranges ! j \<in> set ranges" by simp
    with assms have v: "fst (ranges ! j) \<le> snd (ranges ! j)" "snd (ranges ! j) < length d"
      "snd (ranges ! j) + 1 - fst (ranges ! j) \<le> k" by auto
    then have l: "length (range_bytes d (ranges ! j)) = snd (ranges ! j) + 1 - fst (ranges ! j)"
      by (simp add: length_range_bytes)
    with v have "range_bytes d (ranges ! j) \<noteq> []" "length (range_bytes d (ranges ! j)) \<le> k"
      by auto
    then show ?thesis by (rule chunks_then_single)
  qed
  then show ?thesis
    unfolding streamed_parts_def framed_parts_def
    by (intro arg_cong [where f = concat] map_cong) simp_all
qed

lemma sum_delims:
  assumes "0 < n"
  shows "sum_list (map (\<lambda>j. length (part_delim E n j)) [0..<n]) = 2 * (n - 1) + length (MULTIPART_END E)"
proof -
  from assms have n: "[0..<n] = [0..<n - 1] @ [n - 1]"
    by (metis Suc_pred' upt_Suc_append zero_le)
  have "\<forall>j \<in> set [0..<n - 1]. length (part_delim E n j) = 2"
    by (simp add: part_delim_def CRCF_def)
  from sum_list_const [OF this]
  have "sum_list (map (\<lambda>j. length (part_delim E n j)) [0..<n - 1]) = 2 * (n - 1)"
    by simp
  then show ?thesis
    by (subst n) (simp add: part_delim_def)
qed

lemma length_framed_parts:
  assumes "ranges \<noteq> []"
    and "\<forall>r \<in> set ranges. fst r \<le> snd r \<and> snd r < length d"
    and "length (MULTIPART_END E) = length B + 6"
  shows "length (framed_parts E ranges (map (part_head B mime fs) ranges) d)
           = sum_list (map (part_cost B mime fs) ranges) + length B + 4"
proof -
  let ?n = "length ranges"
  let ?g = "\<lambda>r. length (part_head B mime fs r) + (snd r + 1 - fst r)"
  have "length (framed_parts E ranges (map (part_head B mime fs) ranges) d)
        = sum_list (map (\<lambda>j. ?g (ranges ! j) + length (part_delim E ?n j)) [0..<?n])"
  proof -
    have "length (map (part_head B mime fs) ranges ! j @ range_bytes d (ranges ! j)
                  @ part_delim E ?n j)
          = ?g (ranges ! j) + length (part_delim E ?n j)"
      if "j \<in> set [0..<?n]" for j
    proof -
      from that have j: "j < ?n" by simp
      then have "ranges ! j \<in> set ranges" by simp
      with assms(2) have "length (range_bytes d (ranges ! j))
                           = snd (ranges ! j) + 1 - fst (ranges ! j)"
        by (simp add: length_range_bytes)
      with j show ?thesis by simp
    qed
    then show ?thesis
      unfolding framed_parts_def length_concat map_map comp_def
      by (intro arg_cong [where f = sum_list] map_cong) simp_all
  qed
  also have "\<dots> = sum_list (map (\<lambda>j. ?g (ranges ! j)) [0..<?n])
                   + sum_list (map (\<lambda>j. length (part_delim E ?n j)) [0..<?n])"
    by (simp add: sum_list_addf)
  also have "map (\<lambda>j. ?g (ranges ! j)) [0..<?n] = map ?g ranges"
    by (rule map_over_indices)
  also have "sum_list (map (\<lambda>j. length (part_delim E ?n j)) [0..<?n])
             = 2 * (?n - 1) + length (MULTIPART_END E)"
    using assms(1) by (intro sum_delims) simp
  also have "sum_list (map ?g ranges) + (2 * (?n - 1) + length (MULTIPART_END E))
             = sum_list (map (part_cost B mime fs) ranges) + length B + 4"
  proof -
    have "sum_list (map (part_cost B mime fs) ranges) = sum_list (map ?g ranges) + 2 * ?n"
      by (induction ranges) (simp_all add: part_cost_def)
    moreover obtain m where "?n = Suc m" using assms(1) by (cases ranges) simp_all
    ultimately show ?thesis using assms(3) by simp
  qed
  finally show ?thesis .
qed

text \<open>
  When every part fits into one chunk, and \<open>MULTIPART_END\<close> is six bytes longer than
  \<open>BOUNDARY\<close> (as \<open>CRCF\<close>, two dashes, the boundary and two dashes are), the body is
  framed as the spec says and \<open>Content-Length\<close> is its length.
\<close>

lemma multipart_framing_when_parts_fit:
  assumes "static_file_cache srv file_name = None"
    and "disk E file_name = Some d" and "length d < 2 ^ 64"
    and "find_char (CHR ''='') (get_header_value req ''Range'') = Some pos"
    and "parse_ranges E (drop (pos + 1) (get_header_value req ''Range'')) (length d)
           = (ranges, True)"
    and "2 \<le> length ranges"
    and "\<forall>r \<in> set ranges. fst r \<le> snd r \<and> snd r < length d"
    and "0 < chunked_size srv"
    and "never_fails (read_outcomes E)" and "never_fails (peer conn)"
    and "\<forall>r \<in> set ranges. snd r + 1 - fst r \<le> chunked_size srv"
    and "length (MULTIPART_END E) = length (BOUNDARY E) + 6"
    and "heads = map (part_head (BOUNDARY E) (get_mime_type E (get_extension E file_name))
                        (to_string (length d))) ranges"
    and "length (framed_parts E ranges heads d) < 2 ^ 64"
  shows "\<exists>conn' f'.
           static_file_handler E srv file_name req resp conn
             = Some (Inr (resp\<lparr>delay := True\<rparr>, conn', Some f'))
           \<and> sent conn' =
               sent conn
               @ build_multiple_range_header (BOUNDARY E) (length (framed_parts E ranges heads d))
               @ framed_parts E ranges heads d"
proof -
  let ?B = "BOUNDARY E"
  let ?mime = "get_mime_type E (get_extension E file_name)"
  let ?fs = "to_string (length d)"
  have ne: "ranges \<noteq> []" using assms(6) by auto
  have len: "length (framed_parts E ranges heads d)
             = sum_list (map (part_cost ?B ?mime ?fs) ranges) + length ?B + 4"
    unfolding assms(13) using ne assms(7,12) by (rule length_framed_parts)
  have v: "\<forall>r \<in> set ranges. fst r \<le> snd r" using assms(7) by simp
  have "sum_list (map (part_cost ?B ?mime ?fs) ranges) + length ?B + 4 < 2 ^ 64"
    using assms(14) len by simp
  from build_part_heads_len [OF v this] len
  have cl: "snd (build_part_heads ?B ranges ?mime ?fs 0) = length (framed_parts E ranges heads d)"
    by simp
  have "\<forall>r \<in> set ranges. fst r \<le> snd r \<and> snd r < length d
                          \<and> snd r + 1 - fst r \<le> chunked_size srv"
    using assms(7,11) by simp
  then have sp: "streamed_parts (chunked_size srv) E ranges heads d 0
                 = framed_parts E ranges heads d"
    by (rule streamed_parts_fit)
  from multipart_response_streams [OF assms(1-10), of resp] cl sp assms(13)
  show ?thesis by auto
qed

lemma sample_part_head_length:
  "length (part_head ''XBOUNDARYX'' ''text/plain'' ''10'' (0, 3)) = 71"
  "length (part_head ''XBOUNDARYX'' ''text/plain'' ''10'' (5, 6)) = 71"
  by (simp_all add: part_head_def to_string.simps digit_char_def CRCF_def TWO_CRCF_def)

lemma sample_content_len:
  "snd (build_part_heads ''XBOUNDARYX'' [(0, 3), (5, 6)] ''text/plain'' ''10'' 0) = 166"
  by (simp add: build_part_heads_def Let_def size_t_def sample_part_head_length CRCF_def)

lemma sample_streamed_length:
  "length (part_head ''XBOUNDARYX'' ''text/plain'' ''10'' (0, 3)
           @ ''01'' @ CRCF @ ''23'' @ CRCF
           @ part_head ''XBOUNDARYX'' ''text/plain'' ''10'' (5, 6)
           @ ''56'' @ CRCF @ ''--XBOUNDARYX--'') = 168"
  by (simp add: sample_part_head_length CRCF_def)

text \<open>
  C2, as the code behaves. The file holds \<open>0123456789\<close>, the chunk size is 2 and the
  request asks for the ranges 0-3 and 5-6. \<open>send_single_part\<close> writes its \<open>more\<close>
  argument after every chunk it reads, so the four bytes of the first part reach the peer
  as \<open>01\<close>, \<open>CRCF\<close>, \<open>23\<close>, \<open>CRCF\<close>: the body is not the first part header followed by
  \<open>0123\<close> and one \<open>CRCF\<close>. It is 168 bytes long, and the header announces the 166 that
  \<open>build_part_heads\<close> counted with one delimiter for each part.
\<close>

theorem multipart_delimiter_after_each_chunk:
  "(\<exists>conn' f'.
      static_file_handler sample_env small_chunk_server ''www/a.txt''
        (get_with_range ''bytes=0-3,5-6'') sample_response fresh_connection
        = Some (Inr (sample_response\<lparr>delay := True\<rparr>, conn', Some f'))
      \<and> f_seeks f' = [0, 5]
      \<and> sent conn' =
          build_multiple_range_header ''XBOUNDARYX'' 166
          @ part_head ''XBOUNDARYX'' ''text/plain'' ''10'' (0, 3)
          @ ''01'' @ CRCF @ ''23'' @ CRCF
          @ part_head ''XBOUNDARYX'' ''text/plain'' ''10'' (5, 6)
          @ ''56'' @ CRCF @ ''--XBOUNDARYX--'')
   \<and> length (part_head ''XBOUNDARYX'' ''text/plain'' ''10'' (0, 3)
               @ ''01'' @ CRCF @ ''23'' @ CRCF
               @ part_head ''XBOUNDARYX'' ''text/plain'' ''10'' (5, 6)
               @ ''56'' @ CRCF @ ''--XBOUNDARYX--'') = 168"
proof -
  have h1: "static_file_cache small_chunk_server ''www/a.txt'' = None"
    by (simp add: small_chunk_server_def set_transfer_chunked_size_def sample_defs)
  have h2: "disk sample_env ''www/a.txt'' = Some ''0123456789''"
    by (simp add: sample_defs)
  have h3: "length ''0123456789'' < (2::nat) ^ 64" by simp
  have h4: "find_char (CHR ''='') (get_header_value (get_with_range ''bytes=0-3,5-6'') ''Range'')
              = Some 5"
    by (simp add: sample_defs)
  have h5: "parse_ranges sample_env
              (drop (5 + 1) (get_header_value (get_with_range ''bytes=0-3,5-6'') ''Range''))
              (length ''0123456789'') = ([(0, 3), (5, 6)], True)"
    by (simp add: sample_defs)
  have h6: "2 \<le> length [(0::nat, 3::nat), (5, 6)]" by simp
  have h7: "\<forall>r \<in> set [(0::nat, 3::nat), (5, 6)]. fst r \<le> snd r \<and> snd r < length ''0123456789''"
    by simp
  have h8: "0 < chunked_size small_chunk_server"
    by (simp add: small_chunk_server_def set_transfer_chunked_size_def)
  have h9: "never_fails (read_outcomes sample_env)" "never_fails (peer fresh_connection)"
    by (simp_all add: sample_defs never_fails_def)
  have len: "length ''0123456789'' = 10" by simp
  have mime: "get_mime_type sample_env (get_extension sample_env ''www/a.txt'') = ''text/plain''"
    by (simp add: sample_defs)
  have sf: "sent fresh_connection = []" by (simp add: sent_def fresh_connection_def)
  have bd: "BOUNDARY sample_env = ''XBOUNDARYX''" by (simp add: sample_env_def)
  have ck: "chunked_size small_chunk_server = 2"
    by (simp add: small_chunk_server_def set_transfer_chunked_size_def)
  have ten: "to_string 10 = ''10''" by (simp add: to_string.simps digit_char_def)
  have sp: "streamed_parts 2 sample_env [(0, 3), (5, 6)]
              (map (part_head ''XBOUNDARYX'' ''text/plain'' ''10'') [(0, 3), (5, 6)])
              ''0123456789'' 0
            = part_head ''XBOUNDARYX'' ''text/plain'' ''10'' (0, 3)
              @ ''01'' @ CRCF @ ''23'' @ CRCF
              @ part_head ''XBOUNDARYX'' ''text/plain'' ''10'' (5, 6)
              @ ''56'' @ CRCF @ ''--XBOUNDARYX--''"
    by (simp add: streamed_parts_def part_delim_def range_bytes_def chunks_then.simps
          sample_env_def)
  note r = multipart_response_streams [OF h1 h2 h3 h4 h5 h6 h7 h8 h9, of sample_response,
             unfolded len mime sf bd ck ten sample_content_len sp]
  then have "\<exists>conn' f'.
      static_file_handler sample_env small_chunk_server ''www/a.txt''
        (get_with_range ''bytes=0-3,5-6'') sample_response fresh_connection
        = Some (Inr (sample_response\<lparr>delay := True\<rparr>, conn', Some f'))
      \<and> f_seeks f' = [0, 5]
      \<and> sent conn' =
          build_multiple_range_header ''XBOUNDARYX'' 166
          @ part_head ''XBOUNDARYX'' ''text/plain'' ''10'' (0, 3)
          @ ''01'' @ CRCF @ ''23'' @ CRCF
          @ part_head ''XBOUNDARYX'' ''text/plain'' ''10'' (5, 6)
          @ ''56'' @ CRCF @ ''--XBOUNDARYX--''"
    by simp
  with sample_streamed_length show ?thesis by blast
qed

end
